theory Spec2Isabelle
  imports Complex_Main
begin

section \<open>Python values, exceptions and logging\<close>

text \<open>
  Decoded JWT claims and user-info documents are JSON objects. A Python \<open>dict\<close> decoded
  from JSON has unique string keys; it is kept as an association list and read with
  \<open>map_of\<close>. JSON numbers are restricted to integers.
\<close>

datatype json =
    JNull
  | JBool bool
  | JInt int
  | JStr string
  | JList "json list"
  | JObj "(string \<times> json) list"

type_synonym claims = "(string \<times> json) list"

text \<open>Exceptions are values. Every \<open>raise\<close> of the source is an \<open>Inl\<close> of the model.\<close>

datatype error =
    KeyError string
  | TypeError
  | ValueError
  | AttributeError
  | JWTError string
  | JWTValidationError string
  | Exception string

text \<open>Python truthiness (\<open>not x\<close>, \<open>if x\<close>, \<open>x or y\<close>).\<close>

fun truthy :: "json \<Rightarrow> bool" where
  "truthy JNull = False"
| "truthy (JBool b) = b"
| "truthy (JInt n) = (n \<noteq> 0)"
| "truthy (JStr s) = (s \<noteq> [])"
| "truthy (JList xs) = (xs \<noteq> [])"
| "truthy (JObj kvs) = (kvs \<noteq> [])"

text \<open>\<open>d.get(k)\<close>: the value, or \<open>None\<close> when the key is absent.\<close>

definition dict_get :: "claims \<Rightarrow> string \<Rightarrow> json" where
  "dict_get d k = (case map_of d k of None \<Rightarrow> JNull | Some v \<Rightarrow> v)"

text \<open>\<open>k in d\<close>.\<close>

definition dict_has :: "claims \<Rightarrow> string \<Rightarrow> bool" where
  "dict_has d k = (case map_of d k of None \<Rightarrow> False | Some v \<Rightarrow> True)"

text \<open>A log record: its level and its message (a format string is kept unformatted).\<close>

datatype log_entry =
    LogException string
  | LogError string
  | LogWarning string
  | LogInfo string
  | LogInfoClaims string claims

section \<open>fence/jwt/validator.py\<close>

text \<open>
  The request being served (\<open>request.error_message\<close>) and the application logger
  (\<open>flask.current_app.logger\<close>), both written by \<open>fail_with\<close>.
\<close>

record flask_ctx =
  error_message :: "string option"
  logger :: "log_entry list"

definition fail_with :: "string \<Rightarrow> flask_ctx \<Rightarrow> bool \<times> flask_ctx" where
  "fail_with msg ctx =
     (False, ctx\<lparr>error_message := Some msg, logger := logger ctx @ [LogException msg]\<rparr>)"

text \<open>
  \<open>aud.update(s)\<close> with a \<open>str\<close> argument: \<open>set.update\<close> iterates its argument, and
  iterating a string yields its characters, each a string of length one.
\<close>

definition set_update_str :: "string set \<Rightarrow> string \<Rightarrow> string set" where
  "set_update_str aud s = aud \<union> (\<lambda>c. [c]) ` set s"

text \<open>The audience set handed to \<open>auth.validate_request_jwt\<close>: lines 79 to 82.\<close>

definition bearer_aud :: "string list \<Rightarrow> string set" where
  "bearer_aud scopes = set_update_str (set scopes) ''access''"

text \<open>
  \<open>validate_bearer_token\<close>. \<open>auth.validate_request_jwt\<close> belongs to the library
  \<open>cdispyutils\<close>; it is a parameter, from the demanded audiences to the decoded token or
  the exception raised. Only \<open>auth.JWTValidationError\<close> is caught; any other exception
  leaves the function. The token is a \<open>str\<close> or \<open>None\<close>.
\<close>

definition validate_bearer_token ::
  "(string set \<Rightarrow> error + claims) \<Rightarrow> string option \<Rightarrow> string list \<Rightarrow> flask_ctx
     \<Rightarrow> error + (bool \<times> flask_ctx)" where
  "validate_bearer_token validate_request_jwt token scopes ctx =
     (case token of
        None \<Rightarrow> Inr (fail_with ''No token provided.'' ctx)
      | Some t \<Rightarrow>
          if t = [] then Inr (fail_with ''No token provided.'' ctx)
          else
            (case validate_request_jwt (bearer_aud scopes) of
               Inl (JWTValidationError msg) \<Rightarrow> Inr (fail_with msg ctx)
             | Inl e \<Rightarrow> Inl e
             | Inr decoded_jwt \<Rightarrow>
                 Inr (True, ctx\<lparr>logger := logger ctx @
                        [LogInfoClaims ''validated access token: '' decoded_jwt]\<rparr>)))"

text \<open>
  A validator in the manner of \<open>cdispyutils\<close>: every demanded audience must be among the
  token's \<open>aud\<close> entries. It serves to run \<open>validate_bearer_token\<close> on concrete tokens.
\<close>

definition demand_audiences :: "claims \<Rightarrow> string set \<Rightarrow> error + claims" where
  "demand_audiences tok aud =
     (case map_of tok ''aud'' of
        Some (JList auds) \<Rightarrow>
          if aud \<subseteq> set (concat (map (\<lambda>a. case a of JStr s \<Rightarrow> [s] | _ \<Rightarrow> []) auds))
          then Inr tok
          else Inl (JWTValidationError ''missing audiences'')
      | _ \<Rightarrow> Inl (JWTValidationError ''missing audiences''))"

text \<open>
  The application: its signing key (\<open>keys.default_public_key()\<close>), its host identity
  (\<open>config['HOST_NAME']\<close>), the \<open>BlacklistedToken\<close> table of its database, and what
  the database makes of a \<open>jti\<close> that is not a string when it is bound to the query: the
  text the column is compared with, or the exception raised. The last depends on the
  database and its driver and is a parameter.
\<close>

record BlacklistedToken =
  jti :: string

record app =
  default_public_key :: string
  HOST_NAME :: string
  blacklist :: "BlacklistedToken list"
  bind_jti :: "json \<Rightarrow> error + string"

text \<open>
  \<open>session.query(BlacklistedToken).filter_by(jti=jti).first()\<close>: the first row whose
  \<open>jti\<close> column equals the value bound, or \<open>None\<close>.
\<close>

definition query_blacklist :: "app \<Rightarrow> json \<Rightarrow> error + BlacklistedToken option" where
  "query_blacklist a v =
     (case v of
        JStr s \<Rightarrow> Inr (find (\<lambda>b. jti b = s) (blacklist a))
      | other \<Rightarrow>
          (case bind_jti a other of
             Inl e \<Rightarrow> Inl e
           | Inr s \<Rightarrow> Inr (find (\<lambda>b. jti b = s) (blacklist a))))"

text \<open>
  \<open>validate_refresh_token\<close>. \<open>auth.validate_jwt\<close> (encoded token, public key, audiences,
  issuer) is a parameter. Its exceptions are not caught here: they leave the function,
  and so does an exception of the query.
\<close>

definition validate_refresh_token ::
  "(string \<Rightarrow> string \<Rightarrow> string set \<Rightarrow> string \<Rightarrow> error + claims) \<Rightarrow> app \<Rightarrow> string option
     \<Rightarrow> flask_ctx \<Rightarrow> error + (bool \<times> flask_ctx)" where
  "validate_refresh_token validate_jwt a refresh_token ctx =
     (case refresh_token of
        None \<Rightarrow> Inr (fail_with ''No token provided.'' ctx)
      | Some t \<Rightarrow>
          if t = [] then Inr (fail_with ''No token provided.'' ctx)
          else
            (case validate_jwt t (default_public_key a) {''refresh''} (HOST_NAME a) of
               Inl e \<Rightarrow> Inl e
             | Inr decoded_jwt \<Rightarrow>
                 (let j = dict_get decoded_jwt ''jti'' in
                  if \<not> truthy j then Inr (fail_with ''Token missing jti claim.'' ctx)
                  else
                    (case query_blacklist a j of
                       Inl e \<Rightarrow> Inl e
                     | Inr (Some b) \<Rightarrow> Inr (fail_with ''Token is blacklisted.'' ctx)
                     | Inr None \<Rightarrow>
                         Inr (True, ctx\<lparr>logger := logger ctx @
                                [LogInfoClaims ''validated refresh token: '' decoded_jwt]\<rparr>)))))"

section \<open>The user, the visas and the database session\<close>

text \<open>
  A row of \<open>GA4GHVisaV1\<close> (the column \<open>type\<close> is called \<open>visa_type\<close> here), the
  \<open>User\<close> that owns the rows, and the database session: the user object attached to it
  and the user's visa rows as of the last \<open>commit\<close>. The trace keeps, in order, what
  leaves the process: commits, calls to collaborators over the network, log records.
\<close>

record GA4GHVisaV1 =
  source :: json
  visa_type :: json
  asserted :: int
  expires :: int
  ga4gh_visa :: string

record User =
  email :: "string option"
  display_name :: "string option"
  phone_number :: "string option"
  ga4gh_visas_v1 :: "GA4GHVisaV1 list"

datatype event =
    Commit "GA4GHVisaV1 list"
  | Call string
  | Fetch_keys string string
  | Logged log_entry

record session =
  user :: User
  committed :: "GA4GHVisaV1 list"
  trace :: "event list"

text \<open>\<open>user.ga4gh_visas_v1 = []\<close>\<close>

definition clear_visas :: "'a session_scheme \<Rightarrow> 'a session_scheme" where
  "clear_visas st = st\<lparr>user := (user st)\<lparr>ga4gh_visas_v1 := []\<rparr>\<rparr>"

text \<open>\<open>db_session.commit()\<close>\<close>

definition commit :: "'a session_scheme \<Rightarrow> 'a session_scheme" where
  "commit st =
     st\<lparr>committed := ga4gh_visas_v1 (user st),
        trace := trace st @ [Commit (ga4gh_visas_v1 (user st))]\<rparr>"

definition log_record :: "log_entry \<Rightarrow> 'a session_scheme \<Rightarrow> 'a session_scheme" where
  "log_record l st = st\<lparr>trace := trace st @ [Logged l]\<rparr>"

section \<open>fence/sync/passport\_sync/ras\_sync.py\<close>

text \<open>
  \<open>x.get(k, default)\<close> on a decoded JSON value: only an object has \<open>get\<close>.
\<close>

definition py_get :: "json \<Rightarrow> string \<Rightarrow> json \<Rightarrow> error + json" where
  "py_get x k d =
     (case x of
        JObj kvs \<Rightarrow> Inr (case map_of kvs k of None \<Rightarrow> d | Some v \<Rightarrow> v)
      | _ \<Rightarrow> Inl AttributeError)"

text \<open>
  \<open>for permission in x\<close>: a list yields its items, a string its characters, an object
  its keys; nothing else is iterable.
\<close>

definition py_iter :: "json \<Rightarrow> error + json list" where
  "py_iter x =
     (case x of
        JList xs \<Rightarrow> Inr xs
      | JStr s \<Rightarrow> Inr (map (\<lambda>c. JStr [c]) s)
      | JObj kvs \<Rightarrow> Inr (map (\<lambda>kv. JStr (fst kv)) kvs)
      | _ \<Rightarrow> Inl TypeError)"

text \<open>
  Keys of a Python \<open>dict\<close>: lists and objects are unhashable, and \<open>True == 1\<close>,
  \<open>False == 0\<close>. An assignment \<open>d[k] = v\<close> keeps the key already stored and its place.
\<close>

fun hashable :: "json \<Rightarrow> bool" where
  "hashable (JList xs) = False"
| "hashable (JObj kvs) = False"
| "hashable x = True"

fun key_norm :: "json \<Rightarrow> json" where
  "key_norm (JBool b) = JInt (if b then 1 else 0)"
| "key_norm x = x"

definition py_eq :: "json \<Rightarrow> json \<Rightarrow> bool" where
  "py_eq a b = (key_norm a = key_norm b)"

fun dict_store :: "json \<Rightarrow> 'v \<Rightarrow> (json \<times> 'v) list \<Rightarrow> (json \<times> 'v) list" where
  "dict_store k v [] = [(k, v)]"
| "dict_store k v ((k', v') # kvs) =
     (if py_eq k' k then (k', v) # kvs else (k', v') # dict_store k v kvs)"

definition dict_setitem :: "json \<Rightarrow> 'v \<Rightarrow> (json \<times> 'v) list \<Rightarrow> error + (json \<times> 'v) list" where
  "dict_setitem k v d = (if hashable k then Inr (dict_store k v d) else Inl TypeError)"

fun dict_lookup :: "(json \<times> 'v) list \<Rightarrow> json \<Rightarrow> 'v option" where
  "dict_lookup [] k = None"
| "dict_lookup ((k', v') # kvs) k = (if py_eq k' k then Some v' else dict_lookup kvs k)"

definition sum_bind :: "'e + 'a \<Rightarrow> ('a \<Rightarrow> 'e + 'b) \<Rightarrow> 'e + 'b" where
  "sum_bind m f = (case m of Inl e \<Rightarrow> Inl e | Inr x \<Rightarrow> f x)"

type_synonym project = "(json \<times> string set) list"

text \<open>
  Lines 68 to 70: \<open>full_phsid = phsid\<close>, extended by \<open>"." + consent_group\<close> when
  consent codes are parsed and the consent group is truthy. Concatenation is defined
  on two strings only.
\<close>

definition full_phsid :: "bool \<Rightarrow> json \<Rightarrow> json \<Rightarrow> error + json" where
  "full_phsid parse_consent_code phsid consent_group =
     (if parse_consent_code \<and> truthy consent_group then
        (case consent_group of
           JStr c \<Rightarrow> (case phsid of JStr p \<Rightarrow> Inr (JStr (p @ ''.'' @ c)) | _ \<Rightarrow> Inl TypeError)
         | _ \<Rightarrow> Inl TypeError)
      else Inr phsid)"

definition privileges :: "string set" where
  "privileges = {''read-storage'', ''read''}"

text \<open>The body of the loop, lines 64 to 73, on \<open>project\<close> and \<open>info["tags"]\<close>.\<close>

definition permission_step ::
  "bool \<Rightarrow> json \<Rightarrow> project \<times> claims \<Rightarrow> error + (project \<times> claims)" where
  "permission_step parse_consent_code permission acc =
     sum_bind (py_get permission ''phs_id'' (JStr [])) (\<lambda>phsid.
     sum_bind (py_get permission ''version'' (JStr [])) (\<lambda>version.
     sum_bind (py_get permission ''participant_set'' (JStr [])) (\<lambda>participant_set.
     sum_bind (py_get permission ''consent_group'' (JStr [])) (\<lambda>consent_group.
     sum_bind (full_phsid parse_consent_code phsid consent_group) (\<lambda>key.
     sum_bind (dict_setitem key privileges (fst acc)) (\<lambda>project'.
     sum_bind (py_get permission ''role'' (JStr [])) (\<lambda>role.
       Inr (project', [(''dbgap_role'', role)]))))))))"

fun permissions_loop ::
  "bool \<Rightarrow> json list \<Rightarrow> project \<times> claims \<Rightarrow> error + (project \<times> claims)" where
  "permissions_loop parse_consent_code [] acc = Inr acc"
| "permissions_loop parse_consent_code (permission # rest) acc =
     (case permission_step parse_consent_code permission acc of
        Inl e \<Rightarrow> Inl e
      | Inr acc' \<Rightarrow> permissions_loop parse_consent_code rest acc')"

record info =
  tags :: claims
  info_email :: string
  info_display_name :: string
  info_phone_number :: string

text \<open>\<open>x or ""\<close> on a column that holds a string or \<open>None\<close>.\<close>

definition or_empty :: "string option \<Rightarrow> string" where
  "or_empty x = (case x of None \<Rightarrow> [] | Some s \<Rightarrow> s)"

definition make_info :: "claims \<Rightarrow> User \<Rightarrow> info" where
  "make_info t u =
     \<lparr>tags = t, info_email = or_empty (email u), info_display_name = or_empty (display_name u),
      info_phone_number = or_empty (phone_number u)\<rparr>"

text \<open>
  \<open>RASVisa._parse_single_visa\<close>. \<open>jwt.decode(encoded_visa, verify=False)\<close> is a
  parameter, and so is the clock reading \<open>time.time()\<close>. The result is the session
  after the call, and the pair \<open>(project, info)\<close> or the exception that left the loop.
\<close>

definition parse_single_visa ::
  "(string \<Rightarrow> error + claims) \<Rightarrow> real \<Rightarrow> string \<Rightarrow> int \<Rightarrow> bool \<Rightarrow> session
     \<Rightarrow> session \<times> (error + (project \<times> info))" where
  "parse_single_visa jwt_decode now encoded_visa expires' parse_consent_code st =
     (let (decoded_visa, st1) =
            (case jwt_decode encoded_visa of
               Inr d \<Rightarrow> (d, st)
             | Inl e \<Rightarrow>
                 ([], commit (clear_visas (log_record (LogWarning ''Couldn't decode visa {}'') st))));
          ras_dbgap_permissions =
            (case map_of decoded_visa ''ras_dbgap_permissions'' of
               None \<Rightarrow> JList [] | Some v \<Rightarrow> v)
      in if now < real_of_int expires' then
           (case sum_bind (py_iter ras_dbgap_permissions)
                   (\<lambda>ps. permissions_loop parse_consent_code ps ([], [])) of
              Inl e \<Rightarrow> (st1, Inl e)
            | Inr (project, t) \<Rightarrow> (st1, Inr (project, make_info t (user st1))))
         else
           (let st2 = commit (clear_visas st1)
            in (st2, Inr ([], make_info [] (user st2)))))"

section \<open>fence/resources/openid/ras\_oauth2.py\<close>

text \<open>
  The public-key cache is a \<open>dict\<close> from issuer to a \<open>dict\<close> from key id to key; a key
  is a PEM string.
\<close>

type_synonym public_key = string

type_synonym pkey_cache = "string \<rightharpoonup> (string \<rightharpoonup> public_key)"

record http_response =
  status_code :: int
  json_body :: "error + json"

text \<open>
  What \<open>RASOauth2Client\<close> calls and does not define: the methods of its base class
  \<open>Oauth2ClientBase\<close>, the libraries (\<open>requests\<close>, \<open>jose\<close>, \<open>authutils\<close>), the helpers of
  \<open>fence.resources.ga4gh.passports\<close>, the configuration, and Python's \<open>int\<close> on a string.
  Each is a parameter: the value returned or the exception raised. The two helpers that
  are handed the key cache return the cache as they leave it. \<open>get_access_token\<close> is the
  call for the user at hand; it stores the user's refresh token and leaves the visa
  rows alone. \<open>validate_jwt\<close> is called with the token, the key and the issuer
  allowlist; its other arguments are constants (\<open>aud=None\<close>, \<open>scope={"openid"}\<close>,
  \<open>require_iat\<close>, \<open>require_exp\<close>).
\<close>

record client =
  get_value_from_discovery_doc :: "string \<Rightarrow> string \<Rightarrow> error + string"
  get_token :: "string \<Rightarrow> string \<Rightarrow> error + claims"
  get_jwt_keys :: "string \<Rightarrow> error + json"
  get_access_token :: "string \<Rightarrow> error + claims"
  requests_get :: "string \<Rightarrow> string \<Rightarrow> error + http_response"
  jose_decode :: "json \<Rightarrow> json \<Rightarrow> (string \<times> bool) list \<Rightarrow> error + claims"
  RAS_USERINFO_ENDPOINT :: string
  GA4GH_VISA_ISSUER_ALLOWLIST :: "string list"
  get_unvalidated_visas_from_valid_passport ::
    "json \<Rightarrow> pkey_cache \<Rightarrow> pkey_cache \<times> (error + string list)"
  get_iss :: "string \<Rightarrow> error + string"
  get_kid :: "string \<Rightarrow> error + string"
  refresh_cronjob_pkey_cache ::
    "string \<Rightarrow> string \<Rightarrow> pkey_cache \<Rightarrow> pkey_cache \<times> (error + public_key option)"
  validate_jwt :: "string \<Rightarrow> public_key \<Rightarrow> string list \<Rightarrow> error + claims"
  int_of_str :: "string \<Rightarrow> int option"

text \<open>\<open>x[k]\<close> with a string \<open>k\<close> on a decoded JSON value.\<close>

definition subscript :: "json \<Rightarrow> string \<Rightarrow> error + json" where
  "subscript x k =
     (case x of
        JObj kvs \<Rightarrow> (case map_of kvs k of None \<Rightarrow> Inl (KeyError k) | Some v \<Rightarrow> Inr v)
      | _ \<Rightarrow> Inl TypeError)"

text \<open>\<open>int(x)\<close> on a decoded JSON value.\<close>

definition py_int :: "(string \<Rightarrow> int option) \<Rightarrow> json \<Rightarrow> error + int" where
  "py_int of_str x =
     (case x of
        JInt n \<Rightarrow> Inr n
      | JBool b \<Rightarrow> Inr (if b then 1 else 0)
      | JStr s \<Rightarrow> (case of_str s of None \<Rightarrow> Inl ValueError | Some n \<Rightarrow> Inr n)
      | _ \<Rightarrow> Inl TypeError)"

text \<open>
  \<open>get_userinfo\<close>, lines 52 to 75: the events it causes (the request, the error record
  on a status other than 200) and the user-info document or the exception.
\<close>

definition get_userinfo :: "client \<Rightarrow> claims \<Rightarrow> event list \<times> (error + json)" where
  "get_userinfo c token =
     (case get_value_from_discovery_doc c ''issuer'' [] of
        Inl e \<Rightarrow> ([], Inl e)
      | Inr issuer \<Rightarrow>
          (let userinfo_endpoint = issuer @ RAS_USERINFO_ENDPOINT c in
           case subscript (JObj token) ''access_token'' of
             Inl e \<Rightarrow> ([], Inl e)
           | Inr (JStr access_token) \<Rightarrow>
               (case requests_get c userinfo_endpoint (''Bearer '' @ access_token) of
                  Inl e \<Rightarrow> ([Call ''requests.get''], Inl e)
                | Inr res \<Rightarrow>
                    if status_code res \<noteq> 200 then
                      ([Call ''requests.get'',
                        Logged (LogError ''Unable to get visa: status_code: {}, message: {}'')],
                       Inr (JObj []))
                    else ([Call ''requests.get''], json_body res))
           | Inr other \<Rightarrow> ([], Inl TypeError)))"

text \<open>\<open>flask.g\<close> as \<open>get_user_id\<close> leaves it.\<close>

record flask_g =
  g_userinfo :: json
  g_tokens :: claims
  g_keys :: json

text \<open>
  Lines 96 to 115 of \<open>get_user_id\<close>: the token, the keys, the user-info document and
  the claims of the ID token, or the first exception.
\<close>

definition fetch_identity ::
  "client \<Rightarrow> string \<Rightarrow> event list \<times> (error + (claims \<times> json \<times> json \<times> claims))" where
  "fetch_identity c code =
     (case sum_bind (get_value_from_discovery_doc c ''token_endpoint'' []) (\<lambda>token_endpoint.
           sum_bind (get_value_from_discovery_doc c ''jwks_uri'' []) (\<lambda>jwks_endpoint.
           sum_bind (get_token c token_endpoint code) (\<lambda>token.
           sum_bind (get_jwt_keys c jwks_endpoint) (\<lambda>keys. Inr (token, keys))))) of
        Inl e \<Rightarrow> ([], Inl e)
      | Inr (token, keys) \<Rightarrow>
          (case get_userinfo c token of
             (evs, Inl e) \<Rightarrow> (evs, Inl e)
           | (evs, Inr userinfo) \<Rightarrow>
               (case sum_bind (subscript (JObj token) ''id_token'') (\<lambda>id_token.
                     sum_bind (jose_decode c id_token keys
                                 [(''verify_aud'', False), (''verify_at_hash'', False)]) (\<lambda>claims.
                     sum_bind (subscript (JObj token) ''access_token'') (\<lambda>access_token.
                     sum_bind (jose_decode c access_token keys [(''verify_aud'', False)])
                       (\<lambda>at_claims. Inr claims)))) of
                  Inl e \<Rightarrow> (evs, Inl e)
                | Inr claims \<Rightarrow>
                    (evs @ [Logged (LogInfo ''Received RAS access token with txn: {}'')],
                     Inr (token, keys, userinfo, claims)))))"

text \<open>
  Lines 117 to 129: the first truthy one of \<open>UserID\<close>, \<open>userid\<close>, \<open>preferred_username\<close>
  of the user-info document and \<open>sub\<close> of the ID token, with the name of its field.
\<close>

definition select_username :: "claims \<Rightarrow> claims \<Rightarrow> (json \<times> string) option" where
  "select_username userinfo claims =
     (if truthy (dict_get userinfo ''UserID'') then Some (dict_get userinfo ''UserID'', ''UserID'')
      else if truthy (dict_get userinfo ''userid'') then
        Some (dict_get userinfo ''userid'', ''userid'')
      else if truthy (dict_get userinfo ''preferred_username'') then
        Some (dict_get userinfo ''preferred_username'', ''preferred_username'')
      else if truthy (dict_get claims ''sub'') then Some (dict_get claims ''sub'', ''sub'')
      else None)"

definition err_msg :: string where
  "err_msg = ''Can't get user's info''"

text \<open>
  \<open>get_user_id\<close>: the events, \<open>flask.g\<close> when it was written, and the dictionary returned.
  Every exception of the \<open>try\<close> block ends in the error dictionary; a user-info document
  that is not an object has no \<open>get\<close>, which is such an exception.
\<close>

definition get_user_id :: "client \<Rightarrow> string \<Rightarrow> event list \<times> flask_g option \<times> claims" where
  "get_user_id c code =
     (case fetch_identity c code of
        (evs, Inl e) \<Rightarrow>
          (evs @ [Logged (LogException ''{}: {}'')], None, [(''error'', JStr err_msg)])
      | (evs, Inr (token, keys, userinfo, claims)) \<Rightarrow>
          (case userinfo of
             JObj ui \<Rightarrow>
               (case select_username ui claims of
                  None \<Rightarrow>
                    (evs @ [Logged (LogError ''{}, received claims: {} and userinfo: {}'')], None,
                     [(''error'', JStr err_msg)])
                | Some (username, field_name) \<Rightarrow>
                    (evs @ [Logged (LogInfo ''Using {} field as username.'')],
                     Some \<lparr>g_userinfo = userinfo, g_tokens = token, g_keys = keys\<rparr>,
                     [(''username'', username), (''email'', dict_get ui ''email'')]))
           | other \<Rightarrow>
               (evs @ [Logged (LogException ''{}: {}'')], None, [(''error'', JStr err_msg)])))"

text \<open>The state \<open>update_user_visas\<close> works on: the session and the key cache.\<close>

record sync_state = session +
  pkey_cache :: pkey_cache

text \<open>\<open>pkey_cache.get(visa_issuer, {}).get(visa_kid)\<close>, and \<open>not public_key\<close>.\<close>

definition cache_get :: "pkey_cache \<Rightarrow> string \<Rightarrow> string \<Rightarrow> public_key option" where
  "cache_get cache visa_issuer visa_kid =
     (case cache visa_issuer of None \<Rightarrow> None | Some ks \<Rightarrow> ks visa_kid)"

definition key_truthy :: "public_key option \<Rightarrow> bool" where
  "key_truthy k = (case k of None \<Rightarrow> False | Some s \<Rightarrow> s \<noteq> [])"

text \<open>The \<open>try\<close> block, lines 167 to 170.\<close>

definition fetch_encoded_visas :: "client \<Rightarrow> sync_state \<Rightarrow> sync_state \<times> (error + string list)" where
  "fetch_encoded_visas c st =
     (case get_value_from_discovery_doc c ''token_endpoint'' [] of
        Inl e \<Rightarrow> (st, Inl e)
      | Inr token_endpoint \<Rightarrow>
          (let st1 = st\<lparr>trace := trace st @ [Call ''get_access_token'']\<rparr> in
           case get_access_token c token_endpoint of
             Inl e \<Rightarrow> (st1, Inl e)
           | Inr token \<Rightarrow>
               (let st2 = st1\<lparr>trace := trace st1 @ fst (get_userinfo c token)\<rparr> in
                case sum_bind (snd (get_userinfo c token))
                       (\<lambda>userinfo. py_get userinfo ''passport_jwt_v11'' JNull) of
                  Inl e \<Rightarrow> (st2, Inl e)
                | Inr encoded_passport \<Rightarrow>
                    (case get_unvalidated_visas_from_valid_passport c encoded_passport
                            (pkey_cache st2) of
                       (cache', r) \<Rightarrow> (st2\<lparr>pkey_cache := cache'\<rparr>, r)))))"

text \<open>
  Lines 189 to 206: the key for the visa, from the cache or, when the cache has none,
  from \<open>refresh_cronjob_pkey_cache\<close>; \<open>None\<close> stands for \<open>continue\<close>.
\<close>

definition lookup_public_key ::
  "client \<Rightarrow> string \<Rightarrow> string \<Rightarrow> sync_state \<Rightarrow> sync_state \<times> public_key option" where
  "lookup_public_key c visa_issuer visa_kid st =
     (if key_truthy (cache_get (pkey_cache st) visa_issuer visa_kid) then
        (st, cache_get (pkey_cache st) visa_issuer visa_kid)
      else
        (case refresh_cronjob_pkey_cache c visa_issuer visa_kid (pkey_cache st) of
           (cache', r) \<Rightarrow>
             (let st1 = st\<lparr>trace := trace st @ [Fetch_keys visa_issuer visa_kid],
                          pkey_cache := cache'\<rparr> in
              case r of
                Inl e \<Rightarrow>
                  (log_record (LogError ''Could not refresh public key cache: {}'') st1, None)
              | Inr public_key \<Rightarrow>
                  if key_truthy public_key then (st1, public_key)
                  else
                    (log_record (LogError ''Could not get public key to validate visa: Successfully fetched issuer's keys but did not find the visa's key id among them. Discarding visa.'') st1,
                     None))))"

text \<open>Lines 241 to 248: the row for a validated visa.\<close>

definition new_visa :: "client \<Rightarrow> string \<Rightarrow> claims \<Rightarrow> error + GA4GHVisaV1" where
  "new_visa c encoded_visa decoded_visa =
     sum_bind (subscript (JObj decoded_visa) ''ga4gh_visa_v1'') (\<lambda>v1.
     sum_bind (subscript v1 ''source'') (\<lambda>src.
     sum_bind (subscript v1 ''type'') (\<lambda>ty.
     sum_bind (sum_bind (subscript v1 ''asserted'') (py_int (int_of_str c))) (\<lambda>a.
     sum_bind (sum_bind (subscript (JObj decoded_visa) ''exp'') (py_int (int_of_str c))) (\<lambda>x.
       Inr \<lparr>source = src, visa_type = ty, asserted = a, expires = x,
            ga4gh_visa = encoded_visa\<rparr>)))))"

text \<open>\<open>GA4GHVisaV1(user=user, ...)\<close> puts the row into \<open>user.ga4gh_visas_v1\<close>.\<close>

definition add_visa :: "GA4GHVisaV1 \<Rightarrow> 'a session_scheme \<Rightarrow> 'a session_scheme" where
  "add_visa visa st = st\<lparr>user := (user st)\<lparr>ga4gh_visas_v1 := ga4gh_visas_v1 (user st) @ [visa]\<rparr>\<rparr>"

text \<open>
  Lines 208 to 252: validation, the check for \<open>sub\<close>, and the row added and committed.
  A failed validation is logged and the loop continues; an exception of lines 241 to 252
  is not caught.
\<close>

definition validate_and_store ::
  "client \<Rightarrow> string \<Rightarrow> public_key \<Rightarrow> sync_state \<Rightarrow> sync_state \<times> (error + unit)" where
  "validate_and_store c encoded_visa public_key st =
     (case sum_bind (validate_jwt c encoded_visa public_key (GA4GH_VISA_ISSUER_ALLOWLIST c))
             (\<lambda>decoded_visa.
                if \<not> dict_has decoded_visa ''sub''
                then Inl (JWTError ''Visa is missing the 'sub' claim.'')
                else Inr decoded_visa) of
        Inl e \<Rightarrow>
          (log_record (LogError ''Visa failed validation: {}. Discarding visa.'') st, Inr ())
      | Inr decoded_visa \<Rightarrow>
          (case new_visa c encoded_visa decoded_visa of
             Inl e \<Rightarrow> (st, Inl e)
           | Inr visa \<Rightarrow> (commit (add_visa visa st), Inr ())))"

text \<open>The body of the loop over the encoded visas, lines 178 to 252.\<close>

definition process_visa ::
  "client \<Rightarrow> string \<Rightarrow> sync_state \<Rightarrow> sync_state \<times> (error + unit)" where
  "process_visa c encoded_visa st =
     (case sum_bind (get_iss c encoded_visa) (\<lambda>visa_issuer.
           sum_bind (get_kid c encoded_visa) (\<lambda>visa_kid. Inr (visa_issuer, visa_kid))) of
        Inl e \<Rightarrow>
          (log_record
             (LogError ''Could not get issuer or kid from visa: {}. Discarding visa.'') st,
           Inr ())
      | Inr (visa_issuer, visa_kid) \<Rightarrow>
          (case lookup_public_key c visa_issuer visa_kid st of
             (st1, None) \<Rightarrow> (st1, Inr ())
           | (st1, Some public_key) \<Rightarrow> validate_and_store c encoded_visa public_key st1))"

fun visas_loop :: "client \<Rightarrow> string list \<Rightarrow> sync_state \<Rightarrow> sync_state \<times> (error + unit)" where
  "visas_loop c [] st = (st, Inr ())"
| "visas_loop c (encoded_visa # rest) st =
     (case process_visa c encoded_visa st of
        (st', Inl e) \<Rightarrow> (st', Inl e)
      | (st', Inr u) \<Rightarrow> visas_loop c rest st')"

text \<open>One run of the body of \<open>update_user_visas\<close>, lines 163 to 252.\<close>

definition update_user_visas_body :: "client \<Rightarrow> sync_state \<Rightarrow> sync_state \<times> (error + unit)" where
  "update_user_visas_body c st =
     (case fetch_encoded_visas c (commit (clear_visas st)) of
        (st1, Inl e) \<Rightarrow> (log_record (LogException ''Could not retrieve visas: {}'') st1, Inl e)
      | (st1, Inr encoded_visas) \<Rightarrow> visas_loop c encoded_visas st1)"

text \<open>
  \<open>@backoff.on_exception(backoff.expo, Exception, **DEFAULT_BACKOFF_SETTINGS)\<close>: the
  decorated function is run again after an exception, until it returns, until the
  exception is one to give up on, or until the number of runs equals \<open>max_tries\<close>; then
  the exception is raised to the caller. \<open>DEFAULT_BACKOFF_SETTINGS\<close> (of \<open>fence.utils\<close>) is
  a parameter. The waiting between runs is left out. The function run is indexed by the
  number of runs made so far, since a collaborator may answer differently each time.
\<close>

record backoff_settings =
  max_tries :: nat
  giveup :: "error \<Rightarrow> bool"

partial_function (option) on_exception ::
  "backoff_settings \<Rightarrow> (nat \<Rightarrow> 's \<Rightarrow> 's \<times> (error + 'a)) \<Rightarrow> nat \<Rightarrow> 's \<Rightarrow> ('s \<times> (error + 'a)) option"
  where
  "on_exception settings target tries st =
     (case target tries st of
        (st', Inr ret) \<Rightarrow> Some (st', Inr ret)
      | (st', Inl e) \<Rightarrow>
          if giveup settings e \<or> Suc tries = max_tries settings then Some (st', Inl e)
          else on_exception settings target (Suc tries) st')"

definition update_user_visas ::
  "backoff_settings \<Rightarrow> (nat \<Rightarrow> client) \<Rightarrow> sync_state \<Rightarrow> (sync_state \<times> (error + unit)) option" where
  "update_user_visas settings cs st =
     on_exception settings (\<lambda>tries. update_user_visas_body (cs tries)) 0 st"

section \<open>Observations on a run\<close>

text \<open>
  Lines 167 to 169 raise: the token endpoint cannot be read from the discovery document,
  \<open>get_access_token\<close> raises, or \<open>get_userinfo\<close> raises. A status other than 200 from the
  user-info endpoint is no exception: \<open>get_userinfo\<close> then returns \<open>{}\<close>.
\<close>

definition token_or_userinfo_fails :: "client \<Rightarrow> bool" where
  "token_or_userinfo_fails c =
     (case get_value_from_discovery_doc c ''token_endpoint'' [] of
        Inl e \<Rightarrow> True
      | Inr token_endpoint \<Rightarrow>
          (case get_access_token c token_endpoint of
             Inl e \<Rightarrow> True
           | Inr token \<Rightarrow> (case snd (get_userinfo c token) of Inl e \<Rightarrow> True | Inr u \<Rightarrow> False)))"

text \<open>The calls of \<open>refresh_cronjob_pkey_cache\<close> in a trace: the key-set fetches.\<close>

definition is_fetch :: "event \<Rightarrow> bool" where
  "is_fetch ev = (case ev of Fetch_keys i k \<Rightarrow> True | _ \<Rightarrow> False)"

definition fetches :: "event list \<Rightarrow> event list" where
  "fetches evs = filter is_fetch evs"

text \<open>Two states that differ in their traces at most.\<close>

definition same_data :: "sync_state \<Rightarrow> sync_state \<Rightarrow> bool" where
  "same_data a b = (user a = user b \<and> committed a = committed b \<and> pkey_cache a = pkey_cache b)"

text \<open>No row of the user, in the session or committed, holds the encoded visa \<open>x\<close>.\<close>

definition never_stored :: "string \<Rightarrow> sync_state \<Rightarrow> bool" where
  "never_stored x st =
     (x \<notin> ga4gh_visa ` set (ga4gh_visas_v1 (user st)) \<and> x \<notin> ga4gh_visa ` set (committed st))"


section \<open>Sample data\<close>

text \<open>Concrete tokens, users and visas on which the definitions are run.\<close>

definition ctx0 :: flask_ctx where
  "ctx0 = \<lparr>error_message = None, logger = []\<rparr>"

definition aces_token :: claims where
  "aces_token = [(''aud'', JList [JStr ''a'', JStr ''c'', JStr ''e'', JStr ''s''])]"

definition sample_app :: app where
  "sample_app =
     \<lparr>default_public_key = ''pk'', HOST_NAME = ''https://fence.example.org'',
      blacklist = [\<lparr>jti = ''f8733984''\<rparr>],
      bind_jti = (\<lambda>v. Inl (Exception ''can't adapt type''))\<rparr>"

definition sample_validate_jwt :: "string \<Rightarrow> string \<Rightarrow> string set \<Rightarrow> string \<Rightarrow> error + claims" where
  "sample_validate_jwt t k aud iss =
     (if t = ''refresh-1'' \<and> k = ''pk'' then
        Inr [(''jti'', JStr ''f8733984''), (''aud'', JList [JStr ''refresh'']), (''iss'', JStr iss)]
      else Inl (JWTValidationError ''Signature verification failed''))"

definition sample_user :: User where
  "sample_user =
     \<lparr>email = Some ''u@example.org'', display_name = None, phone_number = None,
      ga4gh_visas_v1 =
        [\<lparr>source = JStr ''https://ncbi.nlm.nih.gov/gap'',
          visa_type = JStr ''https://ras.nih.gov/visas/v1'', asserted = 100, expires = 200,
          ga4gh_visa = ''old''\<rparr>]\<rparr>"

definition sample_session :: session where
  "sample_session =
     \<lparr>user = sample_user, committed = ga4gh_visas_v1 sample_user, trace = []\<rparr>"

definition perm_admin :: "(string \<times> json) list" where
  "perm_admin =
     [(''phs_id'', JStr ''phs000100''), (''consent_group'', JStr ''c2''), (''role'', JStr ''admin'')]"

definition perm_member :: "(string \<times> json) list" where
  "perm_member =
     [(''phs_id'', JStr ''phs000200''), (''consent_group'', JStr ''c1''), (''role'', JStr ''member'')]"

definition sample_claims :: claims where
  "sample_claims = [(''ras_dbgap_permissions'', JList [JObj perm_admin, JObj perm_member])]"

definition visa1_claims :: claims where
  "visa1_claims =
     [(''iss'', JStr ''https://stsstg.nih.gov''), (''sub'', JStr ''subject-1''),
      (''iat'', JInt 100), (''exp'', JInt 200), (''scope'', JStr ''openid''),
      (''ga4gh_visa_v1'',
       JObj [(''type'', JStr ''https://ras.nih.gov/visas/v1''), (''asserted'', JInt 100),
             (''value'', JStr ''https://stsstg.nih.gov/passport/dbgap''),
             (''source'', JStr ''https://ncbi.nlm.nih.gov/gap'')])]"

definition nosub_claims :: claims where
  "nosub_claims =
     [(''iss'', JStr ''https://stsstg.nih.gov''),
      (''iat'', JInt 100), (''exp'', JInt 200), (''scope'', JStr ''openid''),
      (''ga4gh_visa_v1'',
       JObj [(''type'', JStr ''https://ras.nih.gov/visas/v1''), (''asserted'', JInt 100),
             (''value'', JStr ''https://stsstg.nih.gov/passport/dbgap''),
             (''source'', JStr ''https://ncbi.nlm.nih.gov/gap'')])]"

definition visa1_row :: GA4GHVisaV1 where
  "visa1_row =
     \<lparr>source = JStr ''https://ncbi.nlm.nih.gov/gap'',
      visa_type = JStr ''https://ras.nih.gov/visas/v1'', asserted = 100, expires = 200,
      ga4gh_visa = ''visa-1''\<rparr>"

definition sample_client :: client where
  "sample_client =
     \<lparr>get_value_from_discovery_doc = (\<lambda>k d. Inr (''https://sts.nih.gov/'' @ k)),
      get_token = (\<lambda>endpoint code.
        if code = ''code-1'' then Inr [(''id_token'', JStr ''idt''), (''access_token'', JStr ''at'')]
        else Inl (Exception ''invalid_grant'')),
      get_jwt_keys = (\<lambda>uri. Inr (JList [])),
      get_access_token = (\<lambda>endpoint. Inr [(''access_token'', JStr ''at'')]),
      requests_get = (\<lambda>url header.
        Inr \<lparr>status_code = 200,
             json_body = Inr (JObj [(''userid'', JStr ''alice''),
                                    (''preferred_username'', JStr ''al''),
                                    (''email'', JStr ''alice@nih.gov''),
                                    (''passport_jwt_v11'', JStr ''passport'')])\<rparr>),
      jose_decode = (\<lambda>tok keys opts. Inr [(''sub'', JStr ''subject-1''), (''txn'', JStr ''x'')]),
      RAS_USERINFO_ENDPOINT = ''/openid/connect/v1.1/userinfo'',
      GA4GH_VISA_ISSUER_ALLOWLIST = [''https://stsstg.nih.gov''],
      get_unvalidated_visas_from_valid_passport =
        (\<lambda>passport cache. (cache, Inr [''garbage'', ''visa-1''])),
      get_iss = (\<lambda>v.
        if v = ''garbage'' then Inl (JWTError ''Not enough segments'')
        else if v = ''visa-other'' then Inr ''https://other.example.org''
        else Inr ''https://stsstg.nih.gov''),
      get_kid = (\<lambda>v.
        if v = ''garbage'' then Inl (JWTError ''Not enough segments'')
        else if v = ''visa-oldkid'' then Inr ''kid-0''
        else Inr ''kid-1''),
      refresh_cronjob_pkey_cache = (\<lambda>iss kid cache.
        if iss = ''https://stsstg.nih.gov''
        then (cache(iss \<mapsto> [''kid-1'' \<mapsto> ''PEM-1'']), Inr ([''kid-1'' \<mapsto> ''PEM-1''] kid))
        else (cache, Inl (JWTError ''Could not fetch keys from JWKs url''))),
      validate_jwt = (\<lambda>v key issuers.
        if key = ''PEM-1'' \<and> v = ''visa-1'' then Inr visa1_claims
        else if key = ''PEM-1'' \<and> v = ''visa-nosub'' then Inr nosub_claims
        else Inl (JWTError ''Signature verification failed'')),
      int_of_str = (\<lambda>s. None)\<rparr>"

definition failing_client :: client where
  "failing_client =
     sample_client\<lparr>get_access_token := (\<lambda>endpoint. Inl (Exception ''invalid_grant''))\<rparr>"

definition nosub_client :: client where
  "nosub_client =
     sample_client\<lparr>get_unvalidated_visas_from_valid_passport :=
       (\<lambda>passport cache. (cache, Inr [''visa-nosub'', ''visa-1'']))\<rparr>"

definition sample_sync :: sync_state where
  "sample_sync =
     \<lparr>user = sample_user, committed = ga4gh_visas_v1 sample_user, trace = [],
      pkey_cache = Map.empty\<rparr>"

definition cached_sync :: sync_state where
  "cached_sync =
     sample_sync\<lparr>pkey_cache := [''https://stsstg.nih.gov'' \<mapsto> [''kid-1'' \<mapsto> ''PEM-1'']]\<rparr>"

definition three_tries :: backoff_settings where
  "three_tries = \<lparr>max_tries = 3, giveup = (\<lambda>e. False)\<rparr>"

text \<open>
  A client whose user-info endpoint answers with status 503, and whose passport helper
  finds no visa when there is no passport.
\<close>

definition soft_client :: client where
  "soft_client =
     sample_client\<lparr>
       requests_get := (\<lambda>url header.
         Inr \<lparr>status_code = 503, json_body = Inl ValueError\<rparr>),
       get_unvalidated_visas_from_valid_passport :=
         (\<lambda>passport cache.
            (cache, if passport = JNull then Inr [] else Inr [''garbage'', ''visa-1'']))\<rparr>"

text \<open>
  A client whose passport holds a visa that passes validation and carries \<open>sub\<close> but has
  no \<open>ga4gh_visa_v1\<close> claim, followed by a valid visa; and the state such a run leaves.
\<close>

definition noclaim_claims :: claims where
  "noclaim_claims =
     [(''iss'', JStr ''https://stsstg.nih.gov''), (''sub'', JStr ''subject-1''),
      (''iat'', JInt 100), (''exp'', JInt 200), (''scope'', JStr ''openid'')]"

definition noclaim_client :: client where
  "noclaim_client =
     sample_client\<lparr>
       get_unvalidated_visas_from_valid_passport :=
         (\<lambda>passport cache. (cache, Inr [''visa-noclaim'', ''visa-1''])),
       validate_jwt := (\<lambda>v key issuers.
         if key = ''PEM-1'' \<and> v = ''visa-noclaim'' then Inr noclaim_claims
         else validate_jwt sample_client v key issuers)\<rparr>"

definition noclaim_state :: "event list \<Rightarrow> sync_state" where
  "noclaim_state evs =
     \<lparr>user = sample_user\<lparr>ga4gh_visas_v1 := []\<rparr>, committed = [], trace = evs,
      pkey_cache = [''https://stsstg.nih.gov'' \<mapsto> [''kid-1'' \<mapsto> ''PEM-1'']]\<rparr>"

section \<open>Properties of the token validator\<close>

lemma bearer_aud_nil: "bearer_aud [] = {''a'', ''c'', ''e'', ''s''}"
  by (auto simp: bearer_aud_def set_update_str_def)

text \<open>
  C1. The bearer validator is to demand the audience \<open>access\<close> on top of the caller's
  scopes. Run on an empty scope list, the audience set it hands to the JWT check is the
  four one-letter strings \<open>a\<close>, \<open>c\<close>, \<open>e\<close>, \<open>s\<close>: the string \<open>access\<close> is not in it, and a
  token whose audiences are these four letters, and which lacks \<open>access\<close>, is accepted.
\<close>

theorem validate_bearer_token_access_not_demanded:
  "''access'' \<notin> bearer_aud [] \<and>
   bearer_aud [] = {''a'', ''c'', ''e'', ''s''} \<and>
   validate_bearer_token (demand_audiences aces_token) (Some ''t'') [] ctx0 =
     Inr (True, ctx0\<lparr>logger := [LogInfoClaims ''validated access token: '' aces_token]\<rparr>)"
  by (simp add: bearer_aud_nil validate_bearer_token_def demand_audiences_def aces_token_def
        ctx0_def)

lemma query_blacklist_hit:
  "J \<in> jti ` set (blacklist a) \<Longrightarrow> \<exists>b. query_blacklist a (JStr J) = Inr (Some b)"
  unfolding query_blacklist_def
  by (cases "find (\<lambda>b. jti b = J) (blacklist a)") (auto simp: find_None_iff)

text \<open>
  C2. A refresh token that \<open>auth.validate_jwt\<close> accepts (signature, audience and issuer
  valid) and whose \<open>jti\<close> is in the \<open>BlacklistedToken\<close> table is refused: the result is
  \<open>False\<close> and the reason is written to the request. A token without a \<open>jti\<close> claim is
  refused as well. And whatever \<open>auth.validate_jwt\<close> does, a token whose \<open>jti\<close> is
  blacklisted is never answered with \<open>True\<close>.
\<close>

theorem validate_refresh_token_blacklisted:
  "(vjwt t (default_public_key a) {''refresh''} (HOST_NAME a) = Inr decoded_jwt \<and>
    map_of decoded_jwt ''jti'' = Some (JStr J) \<and> J \<in> jti ` set (blacklist a) \<longrightarrow>
      validate_refresh_token vjwt a (Some t) ctx =
        Inr (False,
             ctx\<lparr>error_message :=
                   Some (if t = [] then ''No token provided.''
                         else if J = [] then ''Token missing jti claim.''
                         else ''Token is blacklisted.''),
                 logger := logger ctx @
                   [LogException (if t = [] then ''No token provided.''
                                  else if J = [] then ''Token missing jti claim.''
                                  else ''Token is blacklisted.'')]\<rparr>)) \<and>
   (vjwt t (default_public_key a) {''refresh''} (HOST_NAME a) = Inr decoded_jwt \<and>
    map_of decoded_jwt ''jti'' = None \<longrightarrow>
      validate_refresh_token vjwt a (Some t) ctx =
        Inr (False,
             ctx\<lparr>error_message :=
                   Some (if t = [] then ''No token provided.'' else ''Token missing jti claim.''),
                 logger := logger ctx @
                   [LogException
                      (if t = [] then ''No token provided.'' else ''Token missing jti claim.'')]\<rparr>)) \<and>
   ((\<forall>d. vjwt t (default_public_key a) {''refresh''} (HOST_NAME a) = Inr d \<longrightarrow>
          (\<exists>J. map_of d ''jti'' = Some (JStr J) \<and> J \<in> jti ` set (blacklist a))) \<longrightarrow>
      (\<forall>c. validate_refresh_token vjwt a (Some t) ctx \<noteq> Inr (True, c)))"
proof (intro conjI impI allI)
  assume h: "vjwt t (default_public_key a) {''refresh''} (HOST_NAME a) = Inr decoded_jwt \<and>
    map_of decoded_jwt ''jti'' = Some (JStr J) \<and> J \<in> jti ` set (blacklist a)"
  then obtain b where "query_blacklist a (JStr J) = Inr (Some b)"
    using query_blacklist_hit by blast
  with h show "validate_refresh_token vjwt a (Some t) ctx =
        Inr (False,
             ctx\<lparr>error_message :=
                   Some (if t = [] then ''No token provided.''
                         else if J = [] then ''Token missing jti claim.''
                         else ''Token is blacklisted.''),
                 logger := logger ctx @
                   [LogException (if t = [] then ''No token provided.''
                                  else if J = [] then ''Token missing jti claim.''
                                  else ''Token is blacklisted.'')]\<rparr>)"
    by (simp add: validate_refresh_token_def dict_get_def fail_with_def)
next
  assume "vjwt t (default_public_key a) {''refresh''} (HOST_NAME a) = Inr decoded_jwt \<and>
    map_of decoded_jwt ''jti'' = None"
  then show "validate_refresh_token vjwt a (Some t) ctx =
        Inr (False,
             ctx\<lparr>error_message :=
                   Some (if t = [] then ''No token provided.'' else ''Token missing jti claim.''),
                 logger := logger ctx @
                   [LogException
                      (if t = [] then ''No token provided.'' else ''Token missing jti claim.'')]\<rparr>)"
    by (simp add: validate_refresh_token_def dict_get_def fail_with_def)
next
  fix c
  assume all: "\<forall>d. vjwt t (default_public_key a) {''refresh''} (HOST_NAME a) = Inr d \<longrightarrow>
          (\<exists>J. map_of d ''jti'' = Some (JStr J) \<and> J \<in> jti ` set (blacklist a))"
  show "validate_refresh_token vjwt a (Some t) ctx \<noteq> Inr (True, c)"
  proof (cases "vjwt t (default_public_key a) {''refresh''} (HOST_NAME a)")
    case (Inl e)
    then show ?thesis
      by (simp add: validate_refresh_token_def fail_with_def)
  next
    case (Inr d)
    with all obtain J where J: "map_of d ''jti'' = Some (JStr J)" "J \<in> jti ` set (blacklist a)"
      by blast
    then obtain b where "query_blacklist a (JStr J) = Inr (Some b)"
      using query_blacklist_hit by blast
    with Inr J show ?thesis
      by (simp add: validate_refresh_token_def dict_get_def fail_with_def)
  qed
qed

theorem validate_refresh_token_blacklisted_witness:
  "sample_validate_jwt ''refresh-1'' (default_public_key sample_app) {''refresh''}
       (HOST_NAME sample_app) =
     Inr [(''jti'', JStr ''f8733984''), (''aud'', JList [JStr ''refresh'']),
          (''iss'', JStr ''https://fence.example.org'')] \<and>
   ''f8733984'' \<in> jti ` set (blacklist sample_app) \<and>
   validate_refresh_token sample_validate_jwt sample_app (Some ''refresh-1'') ctx0 =
     Inr (False, \<lparr>error_message = Some ''Token is blacklisted.'',
                  logger = [LogException ''Token is blacklisted.'']\<rparr>)"
  using validate_refresh_token_blacklisted
    [of sample_validate_jwt "''refresh-1''" sample_app
        "[(''jti'', JStr ''f8733984''), (''aud'', JList [JStr ''refresh'']),
          (''iss'', JStr ''https://fence.example.org'')]" "''f8733984''" ctx0]
  by (simp add: sample_validate_jwt_def sample_app_def ctx0_def)

section \<open>Properties of the access mapper\<close>

lemma py_eq_refl [simp]: "py_eq a a"
  by (simp add: py_eq_def)

lemma dict_lookup_store:
  "dict_lookup (dict_store k v d) k' = (if py_eq k k' then Some v else dict_lookup d k')"
  by (induction d) (auto simp: py_eq_def)

text \<open>What one pass of the loop body does when it does not raise.\<close>

lemma permission_step_store:
  assumes "permission_step pcc permission (proj, t) = Inr (proj', t')"
  shows "\<exists>kvs k. permission = JObj kvs \<and>
           full_phsid pcc (case map_of kvs ''phs_id'' of None \<Rightarrow> JStr [] | Some v \<Rightarrow> v)
             (case map_of kvs ''consent_group'' of None \<Rightarrow> JStr [] | Some v \<Rightarrow> v) = Inr k \<and>
           hashable k \<and> proj' = dict_store k privileges proj \<and>
           t' = [(''dbgap_role'', case map_of kvs ''role'' of None \<Rightarrow> JStr [] | Some v \<Rightarrow> v)]"
  using assms
  by (cases permission)
     (auto simp: permission_step_def sum_bind_def py_get_def dict_setitem_def
           split: sum.splits if_splits)

lemma permission_step_keeps:
  assumes "permission_step pcc permission (proj, t) = Inr (proj', t')"
    and "dict_lookup proj k = Some privileges"
  shows "dict_lookup proj' k = Some privileges"
  using permission_step_store [OF assms(1)] assms(2)
  by (auto simp: dict_lookup_store)

lemma permissions_loop_keeps:
  "permissions_loop pcc ps (proj, t) = Inr (proj', t') \<Longrightarrow>
   dict_lookup proj k = Some privileges \<Longrightarrow> dict_lookup proj' k = Some privileges"
proof (induction ps arbitrary: proj t)
  case Nil
  then show ?case by simp
next
  case (Cons p ps)
  then show ?case
    by (auto split: sum.splits dest: permission_step_keeps)
qed

lemma permissions_loop_member:
  "permissions_loop pcc ps (proj, t) = Inr (proj', t') \<Longrightarrow> p \<in> set ps \<Longrightarrow>
   \<exists>kvs k. p = JObj kvs \<and>
     full_phsid pcc (case map_of kvs ''phs_id'' of None \<Rightarrow> JStr [] | Some v \<Rightarrow> v)
       (case map_of kvs ''consent_group'' of None \<Rightarrow> JStr [] | Some v \<Rightarrow> v) = Inr k \<and>
     dict_lookup proj' k = Some privileges"
proof (induction ps arbitrary: proj t)
  case Nil
  then show ?case by simp
next
  case (Cons q ps)
  from Cons.prems(1) obtain proj1 t1 where
    step: "permission_step pcc q (proj, t) = Inr (proj1, t1)" and
    rest: "permissions_loop pcc ps (proj1, t1) = Inr (proj', t')"
    by (auto split: sum.splits)
  show ?case
  proof (cases "p = q")
    case True
    from permission_step_store [OF step] obtain kvs k where
      k: "q = JObj kvs"
         "full_phsid pcc (case map_of kvs ''phs_id'' of None \<Rightarrow> JStr [] | Some v \<Rightarrow> v)
            (case map_of kvs ''consent_group'' of None \<Rightarrow> JStr [] | Some v \<Rightarrow> v) = Inr k"
         "proj1 = dict_store k privileges proj"
      by blast
    then have "dict_lookup proj1 k = Some privileges"
      by (simp add: dict_lookup_store)
    with rest have "dict_lookup proj' k = Some privileges"
      by (rule permissions_loop_keeps)
    with k True show ?thesis by blast
  next
    case False
    with Cons.prems(2) have "p \<in> set ps" by simp
    with Cons.IH rest show ?thesis by blast
  qed
qed

lemma permissions_loop_tags:
  "permissions_loop pcc ps (proj, t) = Inr (proj', t') \<Longrightarrow> ps \<noteq> [] \<Longrightarrow>
   \<exists>kvs. last ps = JObj kvs \<and>
     t' = [(''dbgap_role'', case map_of kvs ''role'' of None \<Rightarrow> JStr [] | Some v \<Rightarrow> v)]"
proof (induction ps arbitrary: proj t)
  case Nil
  then show ?case by simp
next
  case (Cons q ps)
  from Cons.prems(1) obtain proj1 t1 where
    step: "permission_step pcc q (proj, t) = Inr (proj1, t1)" and
    rest: "permissions_loop pcc ps (proj1, t1) = Inr (proj', t')"
    by (auto split: sum.splits)
  show ?case
  proof (cases "ps = []")
    case True
    with rest have "t' = t1" by simp
    with permission_step_store [OF step] True show ?thesis by auto
  next
    case False
    with Cons.IH [OF rest] show ?thesis by simp
  qed
qed

lemma sample_run:
  "parse_single_visa (\<lambda>v. Inr sample_claims) 150 ''visa'' 200 True sample_session =
     (sample_session,
      Inr ([(JStr ''phs000100.c2'', privileges), (JStr ''phs000200.c1'', privileges)],
           make_info [(''dbgap_role'', JStr ''member'')] sample_user))"
  by (simp add: parse_single_visa_def sample_claims_def perm_admin_def perm_member_def
        py_iter_def sum_bind_def permission_step_def py_get_def full_phsid_def
        dict_setitem_def py_eq_def sample_session_def)

text \<open>
  C5. A visa whose \<open>expires\<close> is not after the clock reading gives an empty project map,
  and the call leaves the user's visa list empty and committed. A project map with an
  entry is returned only when the clock reading is strictly before \<open>expires\<close>.
\<close>

theorem parse_single_visa_expired:
  "(real_of_int e \<le> now \<longrightarrow>
      (\<exists>st'. parse_single_visa jwt_decode now v e pcc st =
               (st', Inr ([], make_info [] (user st'))) \<and>
             ga4gh_visas_v1 (user st') = [] \<and> committed st' = [] \<and>
             last (trace st') = Commit [])) \<and>
   (\<forall>st' proj i. parse_single_visa jwt_decode now v e pcc st = (st', Inr (proj, i)) \<longrightarrow>
      proj \<noteq> [] \<longrightarrow> now < real_of_int e)"
  by (auto simp: parse_single_visa_def Let_def clear_visas_def commit_def log_record_def
           split: sum.splits prod.splits)

theorem parse_single_visa_expired_witness:
  "real_of_int 200 \<le> 250 \<and>
   parse_single_visa (\<lambda>v. Inr sample_claims) 250 ''visa'' 200 True sample_session =
     (\<lparr>user = sample_user\<lparr>ga4gh_visas_v1 := []\<rparr>, committed = [], trace = [Commit []]\<rparr>,
      Inr ([], make_info [] sample_user)) \<and>
   parse_single_visa (\<lambda>v. Inr sample_claims) 150 ''visa'' 200 True sample_session =
     (sample_session,
      Inr ([(JStr ''phs000100.c2'', privileges), (JStr ''phs000200.c1'', privileges)],
           make_info [(''dbgap_role'', JStr ''member'')] sample_user)) \<and>
   (150 :: real) < real_of_int 200"
  using parse_single_visa_expired
    [of 200 250 "\<lambda>v. Inr sample_claims" "''visa''" True sample_session]
    parse_single_visa_expired
    [of 200 150 "\<lambda>v. Inr sample_claims" "''visa''" True sample_session]
    sample_run
  by (auto simp: make_info_def sample_session_def clear_visas_def commit_def
        parse_single_visa_def sample_claims_def)

text \<open>
  C6. A permission with \<open>phs_id = "phs000200"\<close> and \<open>consent_group = "c1"\<close> is stored
  under the key \<open>"phs000200.c1"\<close> when consent codes are parsed and under \<open>"phs000200"\<close>
  when they are not, with the privilege set \<open>{"read", "read-storage"}\<close> in both cases:
  this is what the loop body does, and what the project map of an unexpired visa that
  lists the permission holds when the call returns.
\<close>

theorem parse_single_visa_consent_code:
  assumes "map_of kvs ''phs_id'' = Some (JStr ''phs000200'')"
    and "map_of kvs ''consent_group'' = Some (JStr ''c1'')"
  shows "full_phsid True (JStr ''phs000200'') (JStr ''c1'') = Inr (JStr ''phs000200.c1'') \<and>
         full_phsid False (JStr ''phs000200'') (JStr ''c1'') = Inr (JStr ''phs000200'') \<and>
         (\<exists>role. permission_step pcc (JObj kvs) (proj0, t0) =
            Inr (dict_store (JStr (if pcc then ''phs000200.c1'' else ''phs000200''))
                   {''read'', ''read-storage''} proj0, [(''dbgap_role'', role)])) \<and>
         (jwt_decode v = Inr d \<and> map_of d ''ras_dbgap_permissions'' = Some (JList ps) \<and>
          JObj kvs \<in> set ps \<and> now < real_of_int e \<and>
          parse_single_visa jwt_decode now v e pcc st = (st', Inr (proj, i)) \<longrightarrow>
            dict_lookup proj (JStr (if pcc then ''phs000200.c1'' else ''phs000200'')) =
              Some {''read'', ''read-storage''})"
proof (intro conjI impI)
  show "full_phsid True (JStr ''phs000200'') (JStr ''c1'') = Inr (JStr ''phs000200.c1'')"
    by (simp add: full_phsid_def)
  show "full_phsid False (JStr ''phs000200'') (JStr ''c1'') = Inr (JStr ''phs000200'')"
    by (simp add: full_phsid_def)
  have priv: "privileges = {''read'', ''read-storage''}"
    by (auto simp: privileges_def)
  have key: "full_phsid pcc (JStr ''phs000200'') (JStr ''c1'') =
               Inr (JStr (if pcc then ''phs000200.c1'' else ''phs000200''))"
    by (simp add: full_phsid_def)
  show "\<exists>role. permission_step pcc (JObj kvs) (proj0, t0) =
            Inr (dict_store (JStr (if pcc then ''phs000200.c1'' else ''phs000200''))
                   {''read'', ''read-storage''} proj0, [(''dbgap_role'', role)])"
    using assms key
    by (simp add: permission_step_def sum_bind_def py_get_def dict_setitem_def priv)
  assume run: "jwt_decode v = Inr d \<and> map_of d ''ras_dbgap_permissions'' = Some (JList ps) \<and>
          JObj kvs \<in> set ps \<and> now < real_of_int e \<and>
          parse_single_visa jwt_decode now v e pcc st = (st', Inr (proj, i))"
  then obtain t where loop: "permissions_loop pcc ps ([], []) = Inr (proj, t)"
    by (auto simp: parse_single_visa_def Let_def sum_bind_def py_iter_def
             split: sum.splits prod.splits)
  from run have "JObj kvs \<in> set ps" by simp
  from permissions_loop_member [OF loop this] assms key priv
  show "dict_lookup proj (JStr (if pcc then ''phs000200.c1'' else ''phs000200'')) =
          Some {''read'', ''read-storage''}"
    by auto
qed

theorem parse_single_visa_consent_code_witness:
  "map_of perm_member ''phs_id'' = Some (JStr ''phs000200'') \<and>
   map_of perm_member ''consent_group'' = Some (JStr ''c1'') \<and>
   JObj perm_member \<in> set [JObj perm_admin, JObj perm_member] \<and>
   (150 :: real) < real_of_int 200 \<and>
   parse_single_visa (\<lambda>v. Inr sample_claims) 150 ''visa'' 200 True sample_session =
     (sample_session,
      Inr ([(JStr ''phs000100.c2'', privileges), (JStr ''phs000200.c1'', privileges)],
           make_info [(''dbgap_role'', JStr ''member'')] sample_user)) \<and>
   dict_lookup [(JStr ''phs000100.c2'', privileges), (JStr ''phs000200.c1'', privileges)]
     (JStr ''phs000200.c1'') = Some {''read'', ''read-storage''}"
  using parse_single_visa_consent_code
    [where kvs = perm_member and jwt_decode = "\<lambda>v. Inr sample_claims" and v = "''visa''"
       and d = sample_claims and ps = "[JObj perm_admin, JObj perm_member]" and now = 150
       and e = 200 and pcc = True and st = sample_session and st' = sample_session
       and proj = "[(JStr ''phs000100.c2'', privileges), (JStr ''phs000200.c1'', privileges)]"
       and i = "make_info [(''dbgap_role'', JStr ''member'')] sample_user"]
    sample_run
  by (simp add: perm_member_def sample_claims_def)

text \<open>
  C10, as stated: every visa with two or more permissions comes back with the single tag
  \<open>dbgap_role\<close> of its last permission. An expired visa with two permissions comes back
  with no tag at all.
\<close>

theorem parse_single_visa_tags_expired_counterexample:
  "2 \<le> length [JObj perm_admin, JObj perm_member] \<and>
   map_of sample_claims ''ras_dbgap_permissions'' =
     Some (JList [JObj perm_admin, JObj perm_member]) \<and>
   snd (parse_single_visa (\<lambda>v. Inr sample_claims) 250 ''visa'' 200 True sample_session) =
     Inr ([], make_info [] sample_user) \<and>
   tags (make_info [] sample_user) = [] \<and>
   tags (make_info [] sample_user) \<noteq> [(''dbgap_role'', JStr ''member'')]"
  by (simp add: parse_single_visa_def sample_claims_def make_info_def sample_session_def
        clear_visas_def commit_def)

text \<open>
  C10, amended: for an unexpired visa with two or more permissions, when the call
  returns, \<open>info["tags"]\<close> is the single tag \<open>dbgap_role\<close> holding the role of the last
  permission, while the project map holds the access key of every permission.
\<close>

theorem parse_single_visa_last_role:
  assumes "jwt_decode v = Inr d"
    and "map_of d ''ras_dbgap_permissions'' = Some (JList ps)"
    and "2 \<le> length ps"
    and "now < real_of_int e"
    and "parse_single_visa jwt_decode now v e pcc st = (st', Inr (proj, i))"
  shows "(\<exists>kvs. last ps = JObj kvs \<and>
            tags i = [(''dbgap_role'', case map_of kvs ''role'' of None \<Rightarrow> JStr [] | Some r \<Rightarrow> r)]) \<and>
         (\<forall>p \<in> set ps. \<exists>kvs k. p = JObj kvs \<and>
            full_phsid pcc (case map_of kvs ''phs_id'' of None \<Rightarrow> JStr [] | Some x \<Rightarrow> x)
              (case map_of kvs ''consent_group'' of None \<Rightarrow> JStr [] | Some x \<Rightarrow> x) = Inr k \<and>
            dict_lookup proj k = Some privileges)"
proof -
  from assms obtain t where loop: "permissions_loop pcc ps ([], []) = Inr (proj, t)"
    and i: "i = make_info t (user st)"
    by (auto simp: parse_single_visa_def Let_def sum_bind_def py_iter_def
             split: sum.splits prod.splits)
  from assms(3) have "ps \<noteq> []" by auto
  from permissions_loop_tags [OF loop this] i
  have "\<exists>kvs. last ps = JObj kvs \<and>
            tags i = [(''dbgap_role'', case map_of kvs ''role'' of None \<Rightarrow> JStr [] | Some r \<Rightarrow> r)]"
    by (auto simp: make_info_def)
  moreover have "\<forall>p \<in> set ps. \<exists>kvs k. p = JObj kvs \<and>
            full_phsid pcc (case map_of kvs ''phs_id'' of None \<Rightarrow> JStr [] | Some x \<Rightarrow> x)
              (case map_of kvs ''consent_group'' of None \<Rightarrow> JStr [] | Some x \<Rightarrow> x) = Inr k \<and>
            dict_lookup proj k = Some privileges"
    using permissions_loop_member [OF loop] by blast
  ultimately show ?thesis by blast
qed

theorem parse_single_visa_last_role_witness:
  "map_of sample_claims ''ras_dbgap_permissions'' =
     Some (JList [JObj perm_admin, JObj perm_member]) \<and>
   2 \<le> length [JObj perm_admin, JObj perm_member] \<and>
   (150 :: real) < real_of_int 200 \<and>
   parse_single_visa (\<lambda>v. Inr sample_claims) 150 ''visa'' 200 True sample_session =
     (sample_session,
      Inr ([(JStr ''phs000100.c2'', privileges), (JStr ''phs000200.c1'', privileges)],
           make_info [(''dbgap_role'', JStr ''member'')] sample_user)) \<and>
   tags (make_info [(''dbgap_role'', JStr ''member'')] sample_user) =
     [(''dbgap_role'', JStr ''member'')]"
  using parse_single_visa_last_role
    [where jwt_decode = "\<lambda>v. Inr sample_claims" and v = "''visa''"
       and d = sample_claims and ps = "[JObj perm_admin, JObj perm_member]" and now = 150
       and e = 200 and pcc = True and st = sample_session and st' = sample_session
       and proj = "[(JStr ''phs000100.c2'', privileges), (JStr ''phs000200.c1'', privileges)]"
       and i = "make_info [(''dbgap_role'', JStr ''member'')] sample_user"]
    sample_run
  by (simp add: sample_claims_def perm_member_def make_info_def)

section \<open>Properties of the federated client\<close>

lemma sample_fetch_identity:
  "fetch_identity sample_client ''code-1'' =
     ([Call ''requests.get'', Logged (LogInfo ''Received RAS access token with txn: {}'')],
      Inr ([(''id_token'', JStr ''idt''), (''access_token'', JStr ''at'')], JList [],
           JObj [(''userid'', JStr ''alice''), (''preferred_username'', JStr ''al''),
                 (''email'', JStr ''alice@nih.gov''), (''passport_jwt_v11'', JStr ''passport'')],
           [(''sub'', JStr ''subject-1''), (''txn'', JStr ''x'')]))"
  by (simp add: fetch_identity_def sample_client_def sum_bind_def get_userinfo_def
        subscript_def)

text \<open>
  C9. When the token, the keys, the user-info document and the ID-token claims have been
  obtained, \<open>get_user_id\<close> returns as username the first of \<open>UserID\<close>, \<open>userid\<close>,
  \<open>preferred_username\<close> (user-info document) and \<open>sub\<close> (ID token) that holds a value; when
  none of the four is present it returns the error dictionary, and so it does when a
  step before raised. What it returns is the error dictionary or a username that holds
  a value, never anything else.
\<close>

theorem get_user_id_precedence:
  "(fetch_identity c code = (evs, Inr (token, keys, JObj ui, cl)) \<longrightarrow>
      (truthy (dict_get ui ''UserID'') \<longrightarrow>
         snd (snd (get_user_id c code)) =
           [(''username'', dict_get ui ''UserID''), (''email'', dict_get ui ''email'')]) \<and>
      (\<not> truthy (dict_get ui ''UserID'') \<and> truthy (dict_get ui ''userid'') \<longrightarrow>
         snd (snd (get_user_id c code)) =
           [(''username'', dict_get ui ''userid''), (''email'', dict_get ui ''email'')]) \<and>
      (\<not> truthy (dict_get ui ''UserID'') \<and> \<not> truthy (dict_get ui ''userid'') \<and>
       truthy (dict_get ui ''preferred_username'') \<longrightarrow>
         snd (snd (get_user_id c code)) =
           [(''username'', dict_get ui ''preferred_username''),
            (''email'', dict_get ui ''email'')]) \<and>
      (\<not> truthy (dict_get ui ''UserID'') \<and> \<not> truthy (dict_get ui ''userid'') \<and>
       \<not> truthy (dict_get ui ''preferred_username'') \<and> truthy (dict_get cl ''sub'') \<longrightarrow>
         snd (snd (get_user_id c code)) =
           [(''username'', dict_get cl ''sub''), (''email'', dict_get ui ''email'')]) \<and>
      (map_of ui ''UserID'' = None \<and> map_of ui ''userid'' = None \<and>
       map_of ui ''preferred_username'' = None \<and> map_of cl ''sub'' = None \<longrightarrow>
         get_user_id c code =
           (evs @ [Logged (LogError ''{}, received claims: {} and userinfo: {}'')], None,
            [(''error'', JStr ''Can't get user's info'')]))) \<and>
   (fetch_identity c code = (evs, Inl e) \<longrightarrow>
      get_user_id c code =
        (evs @ [Logged (LogException ''{}: {}'')], None,
         [(''error'', JStr ''Can't get user's info'')])) \<and>
   (snd (snd (get_user_id c code)) = [(''error'', JStr ''Can't get user's info'')] \<or>
    (\<exists>username mail. snd (snd (get_user_id c code)) =
        [(''username'', username), (''email'', mail)] \<and> truthy username))"
proof (intro conjI impI)
  assume "fetch_identity c code = (evs, Inl e)"
  then show "get_user_id c code =
        (evs @ [Logged (LogException ''{}: {}'')], None,
         [(''error'', JStr ''Can't get user's info'')])"
    by (simp add: get_user_id_def err_msg_def)
next
  show "snd (snd (get_user_id c code)) = [(''error'', JStr ''Can't get user's info'')] \<or>
    (\<exists>username mail. snd (snd (get_user_id c code)) =
        [(''username'', username), (''email'', mail)] \<and> truthy username)"
    by (auto simp: get_user_id_def select_username_def err_msg_def
             split: prod.splits sum.splits json.splits option.splits if_splits)
qed (simp_all add: get_user_id_def select_username_def dict_get_def err_msg_def)

theorem get_user_id_precedence_witness:
  "\<not> truthy (dict_get [(''userid'', JStr ''alice''), (''preferred_username'', JStr ''al''),
                 (''email'', JStr ''alice@nih.gov''), (''passport_jwt_v11'', JStr ''passport'')]
               ''UserID'') \<and>
   truthy (dict_get [(''userid'', JStr ''alice''), (''preferred_username'', JStr ''al''),
                 (''email'', JStr ''alice@nih.gov''), (''passport_jwt_v11'', JStr ''passport'')]
               ''userid'') \<and>
   snd (snd (get_user_id sample_client ''code-1'')) =
     [(''username'', JStr ''alice''), (''email'', JStr ''alice@nih.gov'')] \<and>
   fetch_identity sample_client ''code-2'' = ([], Inl (Exception ''invalid_grant'')) \<and>
   snd (snd (get_user_id sample_client ''code-2'')) = [(''error'', JStr ''Can't get user's info'')]"
  using get_user_id_precedence
    [where c = sample_client and code = "''code-1''"
       and evs = "[Call ''requests.get'',
                   Logged (LogInfo ''Received RAS access token with txn: {}'')]"
       and token = "[(''id_token'', JStr ''idt''), (''access_token'', JStr ''at'')]"
       and keys = "JList []"
       and ui = "[(''userid'', JStr ''alice''), (''preferred_username'', JStr ''al''),
                  (''email'', JStr ''alice@nih.gov''), (''passport_jwt_v11'', JStr ''passport'')]"
       and cl = "[(''sub'', JStr ''subject-1''), (''txn'', JStr ''x'')]"]
    get_user_id_precedence
    [where c = sample_client and code = "''code-2''" and evs = "[]"
       and e = "Exception ''invalid_grant''"]
    sample_fetch_identity
  by (simp add: dict_get_def)
     (simp add: fetch_identity_def sample_client_def sum_bind_def)

section \<open>Properties of the visa synchronisation\<close>

subsection \<open>The state after each operation\<close>

lemma log_record_fields [simp]:
  "user (log_record l st) = user st"
  "committed (log_record l st) = committed st"
  "pkey_cache (log_record l st) = pkey_cache st"
  "trace (log_record l st) = trace st @ [Logged l]"
  by (simp_all add: log_record_def)

lemma commit_fields [simp]:
  "user (commit st) = user st"
  "committed (commit st) = ga4gh_visas_v1 (user st)"
  "pkey_cache (commit st) = pkey_cache st"
  "trace (commit st) = trace st @ [Commit (ga4gh_visas_v1 (user st))]"
  by (simp_all add: commit_def)

lemma clear_visas_fields [simp]:
  "user (clear_visas st) = (user st)\<lparr>ga4gh_visas_v1 := []\<rparr>"
  "committed (clear_visas st) = committed st"
  "pkey_cache (clear_visas st) = pkey_cache st"
  "trace (clear_visas st) = trace st"
  by (simp_all add: clear_visas_def)

lemma add_visa_fields [simp]:
  "user (add_visa v st) = (user st)\<lparr>ga4gh_visas_v1 := ga4gh_visas_v1 (user st) @ [v]\<rparr>"
  "committed (add_visa v st) = committed st"
  "pkey_cache (add_visa v st) = pkey_cache st"
  "trace (add_visa v st) = trace st"
  by (simp_all add: add_visa_def)

lemma fetches_append [simp]: "fetches (xs @ ys) = fetches xs @ fetches ys"
  by (simp add: fetches_def)

lemma fetches_simps [simp]:
  "fetches [] = []"
  "fetches (Logged l # evs) = fetches evs"
  "fetches (Commit vs # evs) = fetches evs"
  "fetches (Call n # evs) = fetches evs"
  "fetches (Fetch_keys i k # evs) = Fetch_keys i k # fetches evs"
  by (simp_all add: fetches_def is_fetch_def)


subsection \<open>The key lookup\<close>

lemma lookup_public_key_hit:
  assumes "cache_get (pkey_cache st) i k = Some key" and "key \<noteq> []"
  shows "lookup_public_key c i k st = (st, Some key)"
  using assms by (simp add: lookup_public_key_def key_truthy_def)

lemma lookup_public_key_session:
  assumes "lookup_public_key c i k st = (st', r)"
  shows "user st' = user st \<and> committed st' = committed st"
  using assms
  by (auto simp: lookup_public_key_def Let_def split: if_splits prod.splits sum.splits)

lemma lookup_public_key_fetches:
  "fetches (trace (fst (lookup_public_key c i k st))) =
     fetches (trace st) @
       (if key_truthy (cache_get (pkey_cache st) i k) then [] else [Fetch_keys i k])"
  by (auto simp: lookup_public_key_def Let_def split: prod.splits sum.splits)

lemma lookup_public_key_same:
  assumes "same_data a b"
  shows "snd (lookup_public_key c i k a) = snd (lookup_public_key c i k b) \<and>
         same_data (fst (lookup_public_key c i k a)) (fst (lookup_public_key c i k b))"
  using assms
  by (auto simp: lookup_public_key_def Let_def same_data_def split: prod.splits sum.splits)

lemma lookup_public_key_trace:
  "\<exists>evs. trace (fst (lookup_public_key c i k st)) = trace st @ evs"
  by (auto simp: lookup_public_key_def Let_def split: prod.splits sum.splits)


subsection \<open>Validation and storage of one visa\<close>

lemma new_visa_encoded:
  "new_visa c x d = Inr V \<Longrightarrow> ga4gh_visa V = x"
  by (auto simp: new_visa_def sum_bind_def split: sum.splits)

lemma validate_and_store_cases:
  "(\<exists>l. validate_and_store c x key st = (log_record l st, Inr ()) \<and>
        (\<forall>d. validate_jwt c x key (GA4GH_VISA_ISSUER_ALLOWLIST c) = Inr d \<longrightarrow> \<not> dict_has d ''sub'')) \<or>
   (\<exists>d e. validate_jwt c x key (GA4GH_VISA_ISSUER_ALLOWLIST c) = Inr d \<and> dict_has d ''sub'' \<and>
        new_visa c x d = Inl e \<and> validate_and_store c x key st = (st, Inl e)) \<or>
   (\<exists>d V. validate_jwt c x key (GA4GH_VISA_ISSUER_ALLOWLIST c) = Inr d \<and> dict_has d ''sub'' \<and>
        new_visa c x d = Inr V \<and> validate_and_store c x key st = (commit (add_visa V st), Inr ()))"
  by (cases "validate_jwt c x key (GA4GH_VISA_ISSUER_ALLOWLIST c)")
     (auto simp: validate_and_store_def sum_bind_def split: sum.splits)

lemma validate_and_store_fetches:
  "fetches (trace (fst (validate_and_store c x key st))) = fetches (trace st)"
  using validate_and_store_cases [of c x key st] by auto

lemma validate_and_store_cache:
  "pkey_cache (fst (validate_and_store c x key st)) = pkey_cache st"
  using validate_and_store_cases [of c x key st] by auto

lemma validate_and_store_same:
  assumes "same_data a b"
  shows "snd (validate_and_store c x key a) = snd (validate_and_store c x key b) \<and>
         same_data (fst (validate_and_store c x key a)) (fst (validate_and_store c x key b))"
  using assms
  by (auto simp: validate_and_store_def same_data_def sum_bind_def split: sum.splits)

lemma validate_and_store_trace:
  "\<exists>evs. trace (fst (validate_and_store c x key st)) = trace st @ evs"
  using validate_and_store_cases [of c x key st] by auto

lemma process_visa_malformed:
  assumes "(\<exists>e. get_iss c m = Inl e) \<or> (\<exists>e. get_kid c m = Inl e)"
  shows "process_visa c m st =
           (log_record (LogError ''Could not get issuer or kid from visa: {}. Discarding visa.'') st,
            Inr ())"
  using assms
  by (auto simp: process_visa_def sum_bind_def split: sum.splits)

lemma process_visa_parsed:
  assumes "get_iss c x = Inr i" and "get_kid c x = Inr k"
  shows "process_visa c x st =
           (case lookup_public_key c i k st of
              (st1, None) \<Rightarrow> (st1, Inr ())
            | (st1, Some key) \<Rightarrow> validate_and_store c x key st1)"
  using assms by (simp add: process_visa_def sum_bind_def)

lemma process_visa_accepted:
  assumes "get_iss c v = Inr i" and "get_kid c v = Inr k"
    and "lookup_public_key c i k st = (st1, Some key)"
    and "validate_jwt c v key (GA4GH_VISA_ISSUER_ALLOWLIST c) = Inr d"
    and "dict_has d ''sub''"
    and "new_visa c v d = Inr V"
  shows "process_visa c v st = (commit (add_visa V st1), Inr ())"
  using assms
  by (simp add: process_visa_def sum_bind_def validate_and_store_def)

lemma process_visa_same:
  assumes "same_data a b"
  shows "snd (process_visa c x a) = snd (process_visa c x b) \<and>
         same_data (fst (process_visa c x a)) (fst (process_visa c x b))"
proof (cases "sum_bind (get_iss c x) (\<lambda>i. sum_bind (get_kid c x) (\<lambda>k. Inr (i, k)))")
  case (Inl e)
  with assms show ?thesis
    by (simp add: process_visa_def same_data_def)
next
  case (Inr ik)
  obtain i k where ik: "ik = (i, k)" by (cases ik)
  obtain a1 ra where la: "lookup_public_key c i k a = (a1, ra)"
    by (cases "lookup_public_key c i k a")
  obtain b1 rb where lb: "lookup_public_key c i k b = (b1, rb)"
    by (cases "lookup_public_key c i k b")
  from lookup_public_key_same [OF assms, of c i k] la lb
  have r: "ra = rb" and s: "same_data a1 b1" by simp_all
  from lb r have lb': "lookup_public_key c i k b = (b1, ra)" by simp
  show ?thesis
  proof (cases ra)
    case None
    with Inr ik la lb' s show ?thesis
      by (simp add: process_visa_def)
  next
    case (Some key)
    with Inr ik la lb' validate_and_store_same [OF s, of c x key] show ?thesis
      by (simp add: process_visa_def)
  qed
qed

lemma process_visa_trace:
  "\<exists>evs. trace (fst (process_visa c x st)) = trace st @ evs"
proof (cases "sum_bind (get_iss c x) (\<lambda>i. sum_bind (get_kid c x) (\<lambda>k. Inr (i, k)))")
  case (Inl e)
  then show ?thesis by (simp add: process_visa_def)
next
  case (Inr ik)
  obtain i k where ik: "ik = (i, k)" by (cases ik)
  obtain s1 r where l: "lookup_public_key c i k st = (s1, r)"
    by (cases "lookup_public_key c i k st")
  from lookup_public_key_trace [of c i k st] l
  obtain evs where e1: "trace s1 = trace st @ evs" by auto
  show ?thesis
  proof (cases r)
    case None
    with Inr ik l e1 show ?thesis by (simp add: process_visa_def)
  next
    case (Some key)
    from validate_and_store_trace [of c x key s1] e1
    have "\<exists>evs'. trace (fst (validate_and_store c x key s1)) = trace st @ evs'"
      by auto
    with Inr ik l Some show ?thesis by (simp add: process_visa_def)
  qed
qed

lemma process_visa_raises:
  assumes "snd (process_visa c x st) = Inl e"
  shows "\<exists>key d. validate_jwt c x key (GA4GH_VISA_ISSUER_ALLOWLIST c) = Inr d \<and>
           dict_has d ''sub'' \<and> new_visa c x d = Inl e"
proof (cases "sum_bind (get_iss c x) (\<lambda>i. sum_bind (get_kid c x) (\<lambda>k. Inr (i, k)))")
  case (Inl e')
  with assms show ?thesis by (simp add: process_visa_def)
next
  case (Inr ik)
  obtain i k where ik: "ik = (i, k)" by (cases ik)
  obtain s1 r where l: "lookup_public_key c i k st = (s1, r)"
    by (cases "lookup_public_key c i k st")
  show ?thesis
  proof (cases r)
    case None
    with Inr ik l assms show ?thesis by (simp add: process_visa_def)
  next
    case (Some key)
    with Inr ik l assms have out: "snd (validate_and_store c x key s1) = Inl e"
      by (simp add: process_visa_def)
    from validate_and_store_cases [of c x key s1]
    consider (discard) l where "validate_and_store c x key s1 = (log_record l s1, Inr ())"
      | (raise) d e' where "validate_jwt c x key (GA4GH_VISA_ISSUER_ALLOWLIST c) = Inr d"
          "dict_has d ''sub''" "new_visa c x d = Inl e'"
          "validate_and_store c x key s1 = (s1, Inl e')"
      | (store) V where "validate_and_store c x key s1 = (commit (add_visa V s1), Inr ())"
      by blast
    then show ?thesis
    proof cases
      case discard
      with out show ?thesis by simp
    next
      case raise
      with out have "e' = e" by simp
      with raise show ?thesis by blast
    next
      case store
      with out show ?thesis by simp
    qed
  qed
qed

lemma process_visa_never_stored:
  assumes nosub: "\<forall>key d. validate_jwt c x key (GA4GH_VISA_ISSUER_ALLOWLIST c) = Inr d \<longrightarrow>
                    \<not> dict_has d ''sub''"
    and inv: "x \<notin> ga4gh_visa ` set (ga4gh_visas_v1 (user st))"
  shows "x \<notin> ga4gh_visa ` set (ga4gh_visas_v1 (user (fst (process_visa c y st))))"
proof (cases "sum_bind (get_iss c y) (\<lambda>i. sum_bind (get_kid c y) (\<lambda>k. Inr (i, k)))")
  case (Inl e)
  with inv show ?thesis by (simp add: process_visa_def)
next
  case (Inr ik)
  obtain i k where ik: "ik = (i, k)" by (cases ik)
  obtain s1 r where l: "lookup_public_key c i k st = (s1, r)"
    by (cases "lookup_public_key c i k st")
  from lookup_public_key_session [OF l] inv
  have inv1: "x \<notin> ga4gh_visa ` set (ga4gh_visas_v1 (user s1))" by simp
  show ?thesis
  proof (cases r)
    case None
    with Inr ik l inv1 show ?thesis by (simp add: process_visa_def)
  next
    case (Some key)
    from validate_and_store_cases [of c y key s1]
    consider (discard) l where "validate_and_store c y key s1 = (log_record l s1, Inr ())"
      | (raise) e where "validate_and_store c y key s1 = (s1, Inl e)"
      | (store) d V where "validate_jwt c y key (GA4GH_VISA_ISSUER_ALLOWLIST c) = Inr d"
          "dict_has d ''sub''" "new_visa c y d = Inr V"
          "validate_and_store c y key s1 = (commit (add_visa V s1), Inr ())"
      by blast
    then have "x \<notin> ga4gh_visa ` set (ga4gh_visas_v1 (user (fst (validate_and_store c y key s1))))"
    proof cases
      case discard
      with inv1 show ?thesis by simp
    next
      case raise
      with inv1 show ?thesis by simp
    next
      case store
      from store(3) have "ga4gh_visa V = y" by (rule new_visa_encoded)
      moreover from nosub store(1,2) have "y \<noteq> x" by blast
      ultimately show ?thesis using inv1 store(4) by simp
    qed
    with Inr ik l Some show ?thesis by (simp add: process_visa_def)
  qed
qed

lemma process_visa_committed:
  "set (committed (fst (process_visa c y st))) \<subseteq>
     set (committed st) \<union> set (ga4gh_visas_v1 (user (fst (process_visa c y st))))"
proof (cases "sum_bind (get_iss c y) (\<lambda>i. sum_bind (get_kid c y) (\<lambda>k. Inr (i, k)))")
  case (Inl e)
  then show ?thesis by (simp add: process_visa_def)
next
  case (Inr ik)
  obtain i k where ik: "ik = (i, k)" by (cases ik)
  obtain s1 r where l: "lookup_public_key c i k st = (s1, r)"
    by (cases "lookup_public_key c i k st")
  note s = lookup_public_key_session [OF l]
  show ?thesis
  proof (cases r)
    case None
    with Inr ik l s show ?thesis by (simp add: process_visa_def)
  next
    case (Some key)
    have "set (committed (fst (validate_and_store c y key s1))) \<subseteq>
            set (committed s1) \<union> set (ga4gh_visas_v1 (user (fst (validate_and_store c y key s1))))"
      using validate_and_store_cases [of c y key s1] by auto
    with Inr ik l Some s show ?thesis by (simp add: process_visa_def)
  qed
qed


subsection \<open>The loop and the whole body\<close>

lemma visas_loop_same:
  "same_data a b \<Longrightarrow>
   snd (visas_loop c xs a) = snd (visas_loop c xs b) \<and>
   same_data (fst (visas_loop c xs a)) (fst (visas_loop c xs b))"
proof (induction xs arbitrary: a b)
  case Nil
  then show ?case by simp
next
  case (Cons x xs)
  obtain a1 ra where pa: "process_visa c x a = (a1, ra)" by (cases "process_visa c x a")
  obtain b1 rb where pb: "process_visa c x b = (b1, rb)" by (cases "process_visa c x b")
  from process_visa_same [OF Cons.prems, of c x] pa pb
  have r: "ra = rb" and s: "same_data a1 b1" by simp_all
  from pb r have pb': "process_visa c x b = (b1, ra)" by simp
  show ?case
  proof (cases ra)
    case (Inl e)
    with pa pb' s show ?thesis by simp
  next
    case (Inr u)
    with pa pb' Cons.IH [OF s] show ?thesis by simp
  qed
qed

lemma visas_loop_append:
  "visas_loop c (xs @ ys) st =
     (case visas_loop c xs st of
        (st', Inl e) \<Rightarrow> (st', Inl e)
      | (st', Inr u) \<Rightarrow> visas_loop c ys st')"
  by (induction xs arbitrary: st) (auto split: prod.splits sum.splits)

lemma visas_loop_drop_malformed:
  assumes "(\<exists>e. get_iss c m = Inl e) \<or> (\<exists>e. get_kid c m = Inl e)"
  shows "snd (visas_loop c (xs @ m # ys) st) = snd (visas_loop c (xs @ ys) st) \<and>
         same_data (fst (visas_loop c (xs @ m # ys) st)) (fst (visas_loop c (xs @ ys) st))"
proof -
  let ?L = "LogError ''Could not get issuer or kid from visa: {}. Discarding visa.''"
  obtain s1 r1 where xs: "visas_loop c xs st = (s1, r1)" by (cases "visas_loop c xs st")
  show ?thesis
  proof (cases r1)
    case (Inl e)
    with xs show ?thesis by (simp add: visas_loop_append same_data_def)
  next
    case (Inr u)
    have sd: "same_data (log_record ?L s1) s1" by (simp add: same_data_def)
    have "visas_loop c (m # ys) s1 = visas_loop c ys (log_record ?L s1)"
      using process_visa_malformed [OF assms, of s1] by simp
    with xs Inr visas_loop_same [OF sd, of c ys] show ?thesis
      by (simp add: visas_loop_append)
  qed
qed

lemma visas_loop_trace:
  "\<exists>evs. trace (fst (visas_loop c xs st)) = trace st @ evs"
proof (induction xs arbitrary: st)
  case Nil
  then show ?case by simp
next
  case (Cons x xs)
  obtain s1 r where p: "process_visa c x st = (s1, r)" by (cases "process_visa c x st")
  from process_visa_trace [of c x st] p obtain evs where e1: "trace s1 = trace st @ evs"
    by auto
  show ?case
  proof (cases r)
    case (Inl e)
    with p e1 show ?thesis by simp
  next
    case (Inr u)
    from Cons.IH [of s1] e1 have "\<exists>evs'. trace (fst (visas_loop c xs s1)) = trace st @ evs'"
      by auto
    with p Inr show ?thesis by simp
  qed
qed

lemma visas_loop_never_stored:
  assumes nosub: "\<forall>key d. validate_jwt c x key (GA4GH_VISA_ISSUER_ALLOWLIST c) = Inr d \<longrightarrow>
                    \<not> dict_has d ''sub''"
  shows "never_stored x st \<Longrightarrow> never_stored x (fst (visas_loop c ys st))"
proof (induction ys arbitrary: st)
  case Nil
  then show ?case by simp
next
  case (Cons y ys)
  obtain s1 r where p: "process_visa c y st = (s1, r)" by (cases "process_visa c y st")
  from process_visa_never_stored [OF nosub, of st y] Cons.prems p
  have a: "x \<notin> ga4gh_visa ` set (ga4gh_visas_v1 (user s1))"
    by (simp add: never_stored_def)
  from process_visa_committed [of c y st] p
  have "set (committed s1) \<subseteq> set (committed st) \<union> set (ga4gh_visas_v1 (user s1))" by simp
  with a Cons.prems have "never_stored x s1"
    by (auto simp: never_stored_def)
  with Cons.IH [of s1] p show ?case
    by (cases r) simp_all
qed

lemma fetch_encoded_visas_session:
  assumes "fetch_encoded_visas c st = (st', r)"
  shows "user st' = user st \<and> committed st' = committed st"
  using assms
  by (auto simp: fetch_encoded_visas_def Let_def split: sum.splits prod.splits)

lemma fetch_encoded_visas_trace:
  "\<exists>evs. trace (fst (fetch_encoded_visas c st)) = trace st @ evs"
  by (auto simp: fetch_encoded_visas_def Let_def split: sum.splits prod.splits)

lemma fetch_encoded_visas_fails:
  assumes "token_or_userinfo_fails c"
  shows "\<exists>st' e. fetch_encoded_visas c st = (st', Inl e) \<and> pkey_cache st' = pkey_cache st"
  using assms
  by (auto simp: token_or_userinfo_fails_def fetch_encoded_visas_def Let_def sum_bind_def
           split: sum.splits)

lemma update_user_visas_body_never_stored:
  assumes nosub: "\<forall>key d. validate_jwt c x key (GA4GH_VISA_ISSUER_ALLOWLIST c) = Inr d \<longrightarrow>
                    \<not> dict_has d ''sub''"
  shows "never_stored x (fst (update_user_visas_body c st))"
proof -
  obtain s1 r where f: "fetch_encoded_visas c (commit (clear_visas st)) = (s1, r)"
    by (cases "fetch_encoded_visas c (commit (clear_visas st))")
  from fetch_encoded_visas_session [OF f]
  have ns: "never_stored x s1" by (simp add: never_stored_def)
  show ?thesis
  proof (cases r)
    case (Inl e)
    with f ns show ?thesis by (simp add: update_user_visas_body_def never_stored_def)
  next
    case (Inr batch)
    with f visas_loop_never_stored [OF nosub ns, of batch] show ?thesis
      by (simp add: update_user_visas_body_def)
  qed
qed

lemma update_user_visas_body_fails:
  assumes "token_or_userinfo_fails c"
  shows "\<exists>st' e. update_user_visas_body c st = (st', Inl e) \<and>
           ga4gh_visas_v1 (user st') = [] \<and> committed st' = []"
proof -
  from fetch_encoded_visas_fails [OF assms, of "commit (clear_visas st)"]
  obtain s1 e where f: "fetch_encoded_visas c (commit (clear_visas st)) = (s1, Inl e)"
    by blast
  from fetch_encoded_visas_session [OF f] f show ?thesis
    by (simp add: update_user_visas_body_def)
qed

lemma update_user_visas_body_trace:
  "\<exists>evs. trace (fst (update_user_visas_body c st)) = trace st @ Commit [] # evs"
proof -
  obtain s1 r where f: "fetch_encoded_visas c (commit (clear_visas st)) = (s1, r)"
    by (cases "fetch_encoded_visas c (commit (clear_visas st))")
  from fetch_encoded_visas_trace [of c "commit (clear_visas st)"] f
  obtain evs where e1: "trace s1 = trace st @ Commit [] # evs" by auto
  show ?thesis
  proof (cases r)
    case (Inl e)
    with f e1 show ?thesis by (simp add: update_user_visas_body_def)
  next
    case (Inr batch)
    from visas_loop_trace [of c batch s1] e1
    have "\<exists>evs'. trace (fst (visas_loop c batch s1)) = trace st @ Commit [] # evs'" by auto
    with f Inr show ?thesis by (simp add: update_user_visas_body_def)
  qed
qed


subsection \<open>Retries\<close>

lemma on_exception_all_fail:
  assumes "\<forall>n. tries \<le> n \<and> n < max_tries s \<longrightarrow> token_or_userinfo_fails (cs n)"
    and "tries < max_tries s"
  shows "\<exists>st' e. on_exception s (\<lambda>n. update_user_visas_body (cs n)) tries st = Some (st', Inl e) \<and>
           ga4gh_visas_v1 (user st') = [] \<and> committed st' = []"
  using assms
proof (induction "max_tries s - tries" arbitrary: tries st)
  case 0
  then show ?case by simp
next
  case (Suc k)
  from Suc.prems have "token_or_userinfo_fails (cs tries)" by simp
  from update_user_visas_body_fails [OF this, of st]
  obtain s1 e where b: "update_user_visas_body (cs tries) st = (s1, Inl e)"
    and empty: "ga4gh_visas_v1 (user s1) = []" "committed s1 = []"
    by blast
  show ?case
  proof (cases "giveup s e \<or> Suc tries = max_tries s")
    case True
    with b empty show ?thesis
      by (subst on_exception.simps) simp
  next
    case False
    with Suc.prems have lt: "Suc tries < max_tries s" by simp
    from Suc.hyps(2) have k: "k = max_tries s - Suc tries" by simp
    from Suc.prems have "\<forall>n. Suc tries \<le> n \<and> n < max_tries s \<longrightarrow> token_or_userinfo_fails (cs n)"
      by simp
    from Suc.hyps(1) [OF k this lt, of s1] b False show ?thesis
      by (subst on_exception.simps) simp
  qed
qed

lemma on_exception_result:
  assumes "on_exception s target tries st = Some y"
  shows "\<exists>n st0. target n st0 = y"
proof (rule on_exception.raw_induct
         [where P = "\<lambda>s target tries st y. \<exists>n st0. target n st0 = y", OF _ assms])
  fix f :: "backoff_settings \<Rightarrow> (nat \<Rightarrow> 'a \<Rightarrow> 'a \<times> (error + 'b)) \<Rightarrow> nat \<Rightarrow> 'a
              \<Rightarrow> ('a \<times> (error + 'b)) option"
    and s' target' tries' st' y'
  assume IH: "\<And>target tries st b y. f target tries st b = Some y \<Longrightarrow> \<exists>n st0. tries n st0 = y"
    and step: "(case target' tries' st' of
                  (st1, Inl e) \<Rightarrow>
                    if giveup s' e \<or> Suc tries' = max_tries s' then Some (st1, Inl e)
                    else f s' target' (Suc tries') st1
                | (st1, Inr ret) \<Rightarrow> Some (st1, Inr ret)) = Some y'"
  obtain s1 r where t: "target' tries' st' = (s1, r)" by (cases "target' tries' st'")
  show "\<exists>n st0. target' n st0 = y'"
  proof (cases r)
    case (Inr ret)
    with step t show ?thesis by auto
  next
    case (Inl e)
    show ?thesis
    proof (cases "giveup s' e \<or> Suc tries' = max_tries s'")
      case True
      with step t Inl have "target' tries' st' = y'" by auto
      then show ?thesis by blast
    next
      case False
      with step t Inl have "f s' target' (Suc tries') s1 = Some y'" by auto
      then show ?thesis by (rule IH)
    qed
  qed
qed


subsection \<open>Runs on the sample data\<close>

lemma sample_fetch:
  "snd (fetch_encoded_visas sample_client (commit (clear_visas sample_sync))) =
     Inr [''garbage'', ''visa-1'']"
  by (simp add: fetch_encoded_visas_def sample_client_def get_userinfo_def subscript_def
        sum_bind_def py_get_def Let_def)

lemma sample_lookup:
  "snd (lookup_public_key sample_client ''https://stsstg.nih.gov'' ''kid-1''
          (fst (fetch_encoded_visas sample_client (commit (clear_visas sample_sync))))) =
     Some ''PEM-1''"
  by (simp add: fetch_encoded_visas_def sample_client_def get_userinfo_def subscript_def
        sum_bind_def py_get_def Let_def lookup_public_key_def cache_get_def key_truthy_def
        sample_sync_def)

lemma sample_new_visa: "new_visa sample_client ''visa-1'' visa1_claims = Inr visa1_row"
  by (simp add: new_visa_def visa1_claims_def visa1_row_def subscript_def sum_bind_def
        py_int_def)

lemma nosub_run:
  "update_user_visas_body nosub_client sample_sync =
     (\<lparr>user = sample_user\<lparr>ga4gh_visas_v1 := [visa1_row]\<rparr>, committed = [visa1_row],
       trace = [Commit [], Call ''get_access_token'', Call ''requests.get'',
                Fetch_keys ''https://stsstg.nih.gov'' ''kid-1'',
                Logged (LogError ''Visa failed validation: {}. Discarding visa.''),
                Commit [visa1_row]],
       pkey_cache = [''https://stsstg.nih.gov'' \<mapsto> [''kid-1'' \<mapsto> ''PEM-1'']]\<rparr>,
      Inr ())"
  by (simp add: update_user_visas_body_def fetch_encoded_visas_def nosub_client_def
        sample_client_def get_userinfo_def subscript_def sum_bind_def py_get_def Let_def
        lookup_public_key_def cache_get_def key_truthy_def sample_sync_def process_visa_def
        validate_and_store_def dict_has_def nosub_claims_def visa1_claims_def new_visa_def
        py_int_def visa1_row_def commit_def clear_visas_def add_visa_def log_record_def)

lemma failing_body:
  "update_user_visas_body failing_client st =
     (st\<lparr>user := (user st)\<lparr>ga4gh_visas_v1 := []\<rparr>, committed := [],
         trace := trace st @ [Commit [], Call ''get_access_token'',
                   Logged (LogException ''Could not retrieve visas: {}'')]\<rparr>,
      Inl (Exception ''invalid_grant''))"
  by (simp add: update_user_visas_body_def fetch_encoded_visas_def failing_client_def
        sample_client_def commit_def clear_visas_def log_record_def)

lemma failing_run:
  "update_user_visas three_tries (\<lambda>n. failing_client) sample_sync =
     Some (\<lparr>user = sample_user\<lparr>ga4gh_visas_v1 := []\<rparr>, committed = [],
            trace = [Commit [], Call ''get_access_token'',
                     Logged (LogException ''Could not retrieve visas: {}''),
                     Commit [], Call ''get_access_token'',
                     Logged (LogException ''Could not retrieve visas: {}''),
                     Commit [], Call ''get_access_token'',
                     Logged (LogException ''Could not retrieve visas: {}'')],
            pkey_cache = Map.empty\<rparr>,
           Inl (Exception ''invalid_grant''))"
  unfolding update_user_visas_def
  apply (subst on_exception.simps)
  apply (simp add: failing_body three_tries_def)
  apply (subst on_exception.simps)
  apply (simp add: failing_body)
  apply (subst on_exception.simps)
  apply (simp add: failing_body sample_sync_def)
  done

lemma cached_hit:
  "cache_get (pkey_cache cached_sync) ''https://stsstg.nih.gov'' ''kid-1'' = Some ''PEM-1''"
  by (simp add: cached_sync_def cache_get_def)


lemma soft_body:
  "update_user_visas_body soft_client sample_sync =
     (\<lparr>user = sample_user\<lparr>ga4gh_visas_v1 := []\<rparr>, committed = [],
       trace = [Commit [], Call ''get_access_token'', Call ''requests.get'',
                Logged (LogError ''Unable to get visa: status_code: {}, message: {}'')],
       pkey_cache = Map.empty\<rparr>,
      Inr ())"
  by (simp add: update_user_visas_body_def fetch_encoded_visas_def soft_client_def
        sample_client_def get_userinfo_def subscript_def sum_bind_def py_get_def Let_def
        sample_sync_def commit_def clear_visas_def)

lemmas noclaim_eval =
  update_user_visas_body_def fetch_encoded_visas_def noclaim_client_def
  sample_client_def get_userinfo_def subscript_def sum_bind_def py_get_def Let_def
  commit_def clear_visas_def process_visa_def lookup_public_key_def cache_get_def
  key_truthy_def validate_and_store_def dict_has_def noclaim_claims_def new_visa_def
  noclaim_state_def

lemma noclaim_first:
  "update_user_visas_body noclaim_client sample_sync =
     (noclaim_state [Commit [], Call ''get_access_token'', Call ''requests.get'',
                     Fetch_keys ''https://stsstg.nih.gov'' ''kid-1''],
      Inl (KeyError ''ga4gh_visa_v1''))"
  by (simp add: noclaim_eval sample_sync_def)

lemma noclaim_again:
  "update_user_visas_body noclaim_client (noclaim_state evs) =
     (noclaim_state (evs @ [Commit [], Call ''get_access_token'', Call ''requests.get'']),
      Inl (KeyError ''ga4gh_visa_v1''))"
  by (simp add: noclaim_eval)

lemma noclaim_alone:
  "ga4gh_visas_v1 (user (fst (visas_loop noclaim_client [''visa-1'']
       (fst (fetch_encoded_visas noclaim_client (commit (clear_visas sample_sync))))))) =
     [visa1_row]"
  by (simp add: noclaim_eval sample_sync_def visa1_claims_def visa1_row_def py_int_def
        add_visa_def)

subsection \<open>Failed retrieval, mixed batches, missing subject, cached keys\<close>

text \<open>
  C3, as stated: when the user-info retrieval fails on every run, the function raises.
  A user-info endpoint that answers with status 503 is such a failure, and
  \<open>get_userinfo\<close> turns it into \<open>{}\<close>: the function returns after one run, without an
  exception (and with the visa list empty).
\<close>

theorem update_user_visas_soft_failure_counterexample:
  "requests_get soft_client ''https://sts.nih.gov/issuer/openid/connect/v1.1/userinfo''
       ''Bearer at'' =
     Inr \<lparr>status_code = 503, json_body = Inl ValueError\<rparr> \<and>
   get_userinfo soft_client [(''access_token'', JStr ''at'')] =
     ([Call ''requests.get'',
       Logged (LogError ''Unable to get visa: status_code: {}, message: {}'')],
      Inr (JObj [])) \<and>
   update_user_visas three_tries (\<lambda>n. soft_client) sample_sync =
     Some (\<lparr>user = sample_user\<lparr>ga4gh_visas_v1 := []\<rparr>, committed = [],
            trace = [Commit [], Call ''get_access_token'', Call ''requests.get'',
                     Logged (LogError ''Unable to get visa: status_code: {}, message: {}'')],
            pkey_cache = Map.empty\<rparr>,
           Inr ())"
proof (intro conjI)
  show "requests_get soft_client ''https://sts.nih.gov/issuer/openid/connect/v1.1/userinfo''
       ''Bearer at'' =
     Inr \<lparr>status_code = 503, json_body = Inl ValueError\<rparr>"
    by (simp add: soft_client_def)
  show "get_userinfo soft_client [(''access_token'', JStr ''at'')] =
     ([Call ''requests.get'',
       Logged (LogError ''Unable to get visa: status_code: {}, message: {}'')],
      Inr (JObj []))"
    by (simp add: get_userinfo_def soft_client_def sample_client_def subscript_def)
  show "update_user_visas three_tries (\<lambda>n. soft_client) sample_sync =
     Some (\<lparr>user = sample_user\<lparr>ga4gh_visas_v1 := []\<rparr>, committed = [],
            trace = [Commit [], Call ''get_access_token'', Call ''requests.get'',
                     Logged (LogError ''Unable to get visa: status_code: {}, message: {}'')],
            pkey_cache = Map.empty\<rparr>,
           Inr ())"
    unfolding update_user_visas_def
    by (subst on_exception.simps) (simp add: soft_body)
qed

text \<open>
  C3, amended: every run of the body of \<open>update_user_visas\<close> begins by committing an
  empty visa list: whatever else it does, calls to the provider included, comes after
  that commit in the trace. And when the token or user-info retrieval raises an
  exception on each of the \<open>max_tries\<close> runs, the decorated function ends by raising,
  with the user's visa list empty in the session and in the database. A status other
  than 200 from the user-info endpoint is no exception: \<open>get_userinfo\<close> returns \<open>{}\<close>.
\<close>

theorem update_user_visas_retrieval_fails:
  assumes "0 < max_tries settings"
    and "\<forall>n < max_tries settings. token_or_userinfo_fails (cs n)"
  shows "(\<exists>st' e. update_user_visas settings cs st = Some (st', Inl e) \<and>
            ga4gh_visas_v1 (user st') = [] \<and> committed st' = []) \<and>
         (\<forall>c s. \<exists>evs. trace (fst (update_user_visas_body c s)) = trace s @ Commit [] # evs) \<and>
         (\<forall>c token iss access res.
            get_value_from_discovery_doc c ''issuer'' [] = Inr iss \<and>
            map_of token ''access_token'' = Some (JStr access) \<and>
            requests_get c (iss @ RAS_USERINFO_ENDPOINT c) (''Bearer '' @ access) = Inr res \<and>
            status_code res \<noteq> 200 \<longrightarrow>
              snd (get_userinfo c token) = Inr (JObj []))"
proof (intro conjI)
  show "\<exists>st' e. update_user_visas settings cs st = Some (st', Inl e) \<and>
            ga4gh_visas_v1 (user st') = [] \<and> committed st' = []"
    using on_exception_all_fail [of 0 settings cs st] assms
    by (simp add: update_user_visas_def)
  show "\<forall>c s. \<exists>evs. trace (fst (update_user_visas_body c s)) = trace s @ Commit [] # evs"
    using update_user_visas_body_trace by blast
  show "\<forall>c token iss access res.
            get_value_from_discovery_doc c ''issuer'' [] = Inr iss \<and>
            map_of token ''access_token'' = Some (JStr access) \<and>
            requests_get c (iss @ RAS_USERINFO_ENDPOINT c) (''Bearer '' @ access) = Inr res \<and>
            status_code res \<noteq> 200 \<longrightarrow>
              snd (get_userinfo c token) = Inr (JObj [])"
    by (simp add: get_userinfo_def subscript_def)
qed

theorem update_user_visas_retrieval_fails_witness:
  "0 < max_tries three_tries \<and>
   token_or_userinfo_fails failing_client \<and>
   update_user_visas three_tries (\<lambda>n. failing_client) sample_sync =
     Some (\<lparr>user = sample_user\<lparr>ga4gh_visas_v1 := []\<rparr>, committed = [],
            trace = [Commit [], Call ''get_access_token'',
                     Logged (LogException ''Could not retrieve visas: {}''),
                     Commit [], Call ''get_access_token'',
                     Logged (LogException ''Could not retrieve visas: {}''),
                     Commit [], Call ''get_access_token'',
                     Logged (LogException ''Could not retrieve visas: {}'')],
            pkey_cache = Map.empty\<rparr>,
           Inl (Exception ''invalid_grant'')) \<and>
   ga4gh_visas_v1 sample_user \<noteq> []"
proof -
  have a: "0 < max_tries three_tries" by (simp add: three_tries_def)
  have c: "token_or_userinfo_fails failing_client"
    by (simp add: token_or_userinfo_fails_def failing_client_def sample_client_def)
  then have b: "\<forall>n < max_tries three_tries. token_or_userinfo_fails ((\<lambda>n. failing_client) n)"
    by simp
  from update_user_visas_retrieval_fails [OF a b, of sample_sync]
  obtain st' e where
    "update_user_visas three_tries (\<lambda>n. failing_client) sample_sync = Some (st', Inl e)"
    "ga4gh_visas_v1 (user st') = []" "committed st' = []"
    by blast
  with a c failing_run show ?thesis
    by (simp add: sample_user_def)
qed

text \<open>
  Malformed tokens in a batch. A batch of a malformed token (\<open>get_iss\<close> or \<open>get_kid\<close>
  raises on it) and a valid one (its key is found, \<open>validate_jwt\<close> accepts it, it carries
  \<open>sub\<close>, and its row can be built), in either order: the body returns without an
  exception, the valid visa is the user's one row, committed, and the decorated function
  returns after this first run. In a batch of any length a malformed token can be left
  out without changing the outcome, the rows, or the key cache. No failed validation of
  a visa ends the loop: an exception leaves the loop body only from the construction of
  the row (lines 241 to 248), for a visa that has passed validation.
\<close>

theorem update_user_visas_malformed_and_valid:
  assumes malformed: "(\<exists>e. get_iss c m = Inl e) \<or> (\<exists>e. get_kid c m = Inl e)"
    and fetched: "fetch_encoded_visas c (commit (clear_visas st)) = (st1, Inr batch)"
    and batch: "batch = [m, v] \<or> batch = [v, m]"
    and parsed: "get_iss c v = Inr i" "get_kid c v = Inr k"
    and key: "lookup_public_key c i k st1 = (st2, Some key)"
    and valid: "validate_jwt c v key (GA4GH_VISA_ISSUER_ALLOWLIST c) = Inr d" "dict_has d ''sub''"
    and row: "new_visa c v d = Inr V"
  shows "(\<exists>st'. update_user_visas_body c st = (st', Inr ()) \<and>
            ga4gh_visas_v1 (user st') = [V] \<and> committed st' = [V] \<and>
            (\<forall>settings cs. cs 0 = c \<longrightarrow> update_user_visas settings cs st = Some (st', Inr ()))) \<and>
         (\<forall>xs ys s.
            snd (visas_loop c (xs @ m # ys) s) = snd (visas_loop c (xs @ ys) s) \<and>
            same_data (fst (visas_loop c (xs @ m # ys) s)) (fst (visas_loop c (xs @ ys) s))) \<and>
         (\<forall>x s e. snd (process_visa c x s) = Inl e \<longrightarrow>
            (\<exists>key' d'. validate_jwt c x key' (GA4GH_VISA_ISSUER_ALLOWLIST c) = Inr d' \<and>
               dict_has d' ''sub'' \<and> new_visa c x d' = Inl e))"
proof -
  let ?L = "LogError ''Could not get issuer or kid from visa: {}. Discarding visa.''"
  from fetch_encoded_visas_session [OF fetched]
  have u1: "ga4gh_visas_v1 (user st1) = []" by simp
  from lookup_public_key_session [OF key] u1
  have u2: "ga4gh_visas_v1 (user st2) = []" by simp
  have acc: "process_visa c v st1 = (commit (add_visa V st2), Inr ())"
    by (rule process_visa_accepted [OF parsed key valid row])
  have body: "\<exists>st'. update_user_visas_body c st = (st', Inr ()) \<and>
           ga4gh_visas_v1 (user st') = [V] \<and> committed st' = [V]"
    using batch
  proof
    assume b: "batch = [m, v]"
    have sd: "same_data (log_record ?L st1) st1"
      by (simp add: same_data_def)
    from visas_loop_same [OF sd, of c "[v]"] acc
    have "snd (visas_loop c [v] (log_record ?L st1)) = Inr () \<and>
          same_data (fst (visas_loop c [v] (log_record ?L st1))) (commit (add_visa V st2))"
      by simp
    moreover have "visas_loop c [m, v] st1 = visas_loop c [v] (log_record ?L st1)"
      using process_visa_malformed [OF malformed, of st1] by simp
    ultimately have "snd (visas_loop c [m, v] st1) = Inr () \<and>
          same_data (fst (visas_loop c [m, v] st1)) (commit (add_visa V st2))"
      by simp
    with fetched b u2 show ?thesis
      by (cases "visas_loop c [m, v] st1")
         (simp add: update_user_visas_body_def same_data_def)
  next
    assume b: "batch = [v, m]"
    have "visas_loop c [v, m] st1 = (log_record ?L (commit (add_visa V st2)), Inr ())"
      using acc process_visa_malformed [OF malformed, of "commit (add_visa V st2)"] by simp
    with fetched b u2 show ?thesis
      by (simp add: update_user_visas_body_def)
  qed
  then obtain st' where st': "update_user_visas_body c st = (st', Inr ())"
    "ga4gh_visas_v1 (user st') = [V]" "committed st' = [V]"
    by blast
  have "update_user_visas settings cs st = Some (st', Inr ())" if "cs 0 = c" for settings cs
    unfolding update_user_visas_def
    using that st'(1) by (subst on_exception.simps) simp
  with st' have first: "\<exists>st'. update_user_visas_body c st = (st', Inr ()) \<and>
            ga4gh_visas_v1 (user st') = [V] \<and> committed st' = [V] \<and>
            (\<forall>settings cs. cs 0 = c \<longrightarrow> update_user_visas settings cs st = Some (st', Inr ()))"
    by blast
  have second: "\<forall>xs ys s.
            snd (visas_loop c (xs @ m # ys) s) = snd (visas_loop c (xs @ ys) s) \<and>
            same_data (fst (visas_loop c (xs @ m # ys) s)) (fst (visas_loop c (xs @ ys) s))"
    using visas_loop_drop_malformed [OF malformed] by blast
  have third: "\<forall>x s e. snd (process_visa c x s) = Inl e \<longrightarrow>
            (\<exists>key' d'. validate_jwt c x key' (GA4GH_VISA_ISSUER_ALLOWLIST c) = Inr d' \<and>
               dict_has d' ''sub'' \<and> new_visa c x d' = Inl e)"
    using process_visa_raises by blast
  from first second third show ?thesis
    by (intro conjI)
qed

theorem update_user_visas_malformed_and_valid_witness:
  "get_iss sample_client ''garbage'' = Inl (JWTError ''Not enough segments'') \<and>
   snd (fetch_encoded_visas sample_client (commit (clear_visas sample_sync))) =
     Inr [''garbage'', ''visa-1''] \<and>
   validate_jwt sample_client ''visa-1'' ''PEM-1'' (GA4GH_VISA_ISSUER_ALLOWLIST sample_client) =
     Inr visa1_claims \<and>
   dict_has visa1_claims ''sub'' \<and>
   new_visa sample_client ''visa-1'' visa1_claims = Inr visa1_row \<and>
   snd (update_user_visas_body sample_client sample_sync) = Inr () \<and>
   ga4gh_visas_v1 (user (fst (update_user_visas_body sample_client sample_sync))) = [visa1_row] \<and>
   committed (fst (update_user_visas_body sample_client sample_sync)) = [visa1_row] \<and>
   update_user_visas three_tries (\<lambda>n. sample_client) sample_sync =
     Some (update_user_visas_body sample_client sample_sync)"
proof -
  let ?S = "commit (clear_visas sample_sync)"
  let ?S1 = "fst (fetch_encoded_visas sample_client ?S)"
  let ?S2 = "fst (lookup_public_key sample_client ''https://stsstg.nih.gov'' ''kid-1'' ?S1)"
  have m: "(\<exists>e. get_iss sample_client ''garbage'' = Inl e) \<or>
           (\<exists>e. get_kid sample_client ''garbage'' = Inl e)"
    by (simp add: sample_client_def)
  have f: "fetch_encoded_visas sample_client ?S = (?S1, Inr [''garbage'', ''visa-1''])"
    using sample_fetch by (simp add: prod_eq_iff)
  have b: "[''garbage'', ''visa-1''] = [''garbage'', ''visa-1''] \<or>
           [''garbage'', ''visa-1''] = [''visa-1'', ''garbage'']"
    by simp
  have i: "get_iss sample_client ''visa-1'' = Inr ''https://stsstg.nih.gov''"
    and k: "get_kid sample_client ''visa-1'' = Inr ''kid-1''"
    by (simp_all add: sample_client_def)
  have l: "lookup_public_key sample_client ''https://stsstg.nih.gov'' ''kid-1'' ?S1 =
             (?S2, Some ''PEM-1'')"
    using sample_lookup by (simp add: prod_eq_iff)
  have v: "validate_jwt sample_client ''visa-1'' ''PEM-1''
             (GA4GH_VISA_ISSUER_ALLOWLIST sample_client) = Inr visa1_claims"
    by (simp add: sample_client_def)
  have s: "dict_has visa1_claims ''sub''"
    by (simp add: dict_has_def visa1_claims_def)
  from update_user_visas_malformed_and_valid [OF m f b i k l v s sample_new_visa]
  obtain st' where run: "update_user_visas_body sample_client sample_sync = (st', Inr ())"
    "ga4gh_visas_v1 (user st') = [visa1_row]" "committed st' = [visa1_row]"
    and all: "\<forall>settings cs. cs 0 = sample_client \<longrightarrow>
                update_user_visas settings cs sample_sync = Some (st', Inr ())"
    by blast
  from all have "update_user_visas three_tries (\<lambda>n. sample_client) sample_sync =
                   Some (st', Inr ())"
    by simp
  with run sample_fetch v s sample_new_visa show ?thesis
    by (simp add: sample_client_def)
qed

text \<open>
  C4. A failure on one visa is not to end the validation and storage of the others.
  Lines 241 to 252 stand outside every \<open>try\<close>. The batch here is a visa that passes
  validation and carries \<open>sub\<close> but has no \<open>ga4gh_visa_v1\<close> claim, followed by a valid
  visa. The \<open>KeyError\<close> of the first leaves the loop and the function; the valid visa,
  which is stored when it is alone, is never reached: after each run, and after the
  third and last run of the decorated function, the user has no row.
\<close>

theorem update_user_visas_row_error_aborts:
  "validate_jwt noclaim_client ''visa-noclaim'' ''PEM-1''
       (GA4GH_VISA_ISSUER_ALLOWLIST noclaim_client) = Inr noclaim_claims \<and>
   dict_has noclaim_claims ''sub'' \<and>
   new_visa noclaim_client ''visa-noclaim'' noclaim_claims = Inl (KeyError ''ga4gh_visa_v1'') \<and>
   snd (fetch_encoded_visas noclaim_client (commit (clear_visas sample_sync))) =
     Inr [''visa-noclaim'', ''visa-1''] \<and>
   ga4gh_visas_v1 (user (fst (visas_loop noclaim_client [''visa-1'']
       (fst (fetch_encoded_visas noclaim_client (commit (clear_visas sample_sync))))))) =
     [visa1_row] \<and>
   update_user_visas_body noclaim_client sample_sync =
     (noclaim_state [Commit [], Call ''get_access_token'', Call ''requests.get'',
                     Fetch_keys ''https://stsstg.nih.gov'' ''kid-1''],
      Inl (KeyError ''ga4gh_visa_v1'')) \<and>
   update_user_visas three_tries (\<lambda>n. noclaim_client) sample_sync =
     Some (noclaim_state [Commit [], Call ''get_access_token'', Call ''requests.get'',
                          Fetch_keys ''https://stsstg.nih.gov'' ''kid-1'',
                          Commit [], Call ''get_access_token'', Call ''requests.get'',
                          Commit [], Call ''get_access_token'', Call ''requests.get''],
           Inl (KeyError ''ga4gh_visa_v1'')) \<and>
   (\<forall>evs. ga4gh_visas_v1 (user (noclaim_state evs)) = [] \<and> committed (noclaim_state evs) = [])"
proof (intro conjI)
  show "update_user_visas three_tries (\<lambda>n. noclaim_client) sample_sync =
     Some (noclaim_state [Commit [], Call ''get_access_token'', Call ''requests.get'',
                          Fetch_keys ''https://stsstg.nih.gov'' ''kid-1'',
                          Commit [], Call ''get_access_token'', Call ''requests.get'',
                          Commit [], Call ''get_access_token'', Call ''requests.get''],
           Inl (KeyError ''ga4gh_visa_v1''))"
    unfolding update_user_visas_def
    apply (subst on_exception.simps)
    apply (simp add: noclaim_first three_tries_def)
    apply (subst on_exception.simps)
    apply (simp add: noclaim_again)
    apply (subst on_exception.simps)
    apply (simp add: noclaim_again)
    done
next
  show "ga4gh_visas_v1 (user (fst (visas_loop noclaim_client [''visa-1'']
       (fst (fetch_encoded_visas noclaim_client (commit (clear_visas sample_sync))))))) =
     [visa1_row]"
    by (rule noclaim_alone)
next
  show "update_user_visas_body noclaim_client sample_sync =
     (noclaim_state [Commit [], Call ''get_access_token'', Call ''requests.get'',
                     Fetch_keys ''https://stsstg.nih.gov'' ''kid-1''],
      Inl (KeyError ''ga4gh_visa_v1''))"
    by (rule noclaim_first)
next
  show "validate_jwt noclaim_client ''visa-noclaim'' ''PEM-1''
       (GA4GH_VISA_ISSUER_ALLOWLIST noclaim_client) = Inr noclaim_claims"
    by (simp add: noclaim_client_def)
next
  show "dict_has noclaim_claims ''sub''"
    by (simp add: dict_has_def noclaim_claims_def)
next
  show "new_visa noclaim_client ''visa-noclaim'' noclaim_claims = Inl (KeyError ''ga4gh_visa_v1'')"
    by (simp add: new_visa_def noclaim_claims_def subscript_def sum_bind_def)
next
  show "snd (fetch_encoded_visas noclaim_client (commit (clear_visas sample_sync))) =
     Inr [''visa-noclaim'', ''visa-1'']"
    by (simp add: fetch_encoded_visas_def noclaim_client_def sample_client_def get_userinfo_def
          subscript_def sum_bind_def py_get_def Let_def)
next
  show "\<forall>evs. ga4gh_visas_v1 (user (noclaim_state evs)) = [] \<and> committed (noclaim_state evs) = []"
    by (simp add: noclaim_state_def)
qed

text \<open>
  C7. A visa that \<open>validate_jwt\<close> accepts (signature, expiry, scope, issuer, \<open>iat\<close> and \<open>exp\<close>
  in order) and whose claims lack \<open>sub\<close> is logged and discarded, the rows of the user
  untouched and the loop going on. A visa that lacks \<open>sub\<close> under every key is in no row
  of the user, in the session or committed, after a run of the body, and after the
  decorated function has ended.
\<close>

theorem update_user_visas_missing_sub:
  "(get_iss c v = Inr i \<and> get_kid c v = Inr k \<and>
    lookup_public_key c i k st = (sk, Some key) \<and>
    validate_jwt c v key (GA4GH_VISA_ISSUER_ALLOWLIST c) = Inr d \<and> \<not> dict_has d ''sub'' \<longrightarrow>
      process_visa c v st =
        (log_record (LogError ''Visa failed validation: {}. Discarding visa.'') sk, Inr ()) \<and>
      user (fst (process_visa c v st)) = user st \<and>
      committed (fst (process_visa c v st)) = committed st) \<and>
   ((\<forall>key d. validate_jwt c v key (GA4GH_VISA_ISSUER_ALLOWLIST c) = Inr d \<longrightarrow>
        \<not> dict_has d ''sub'') \<longrightarrow>
      never_stored v (fst (update_user_visas_body c st))) \<and>
   ((\<forall>n key d. validate_jwt (cs n) v key (GA4GH_VISA_ISSUER_ALLOWLIST (cs n)) = Inr d \<longrightarrow>
        \<not> dict_has d ''sub'') \<longrightarrow>
      (\<forall>st' r. update_user_visas settings cs st = Some (st', r) \<longrightarrow> never_stored v st'))"
proof (intro conjI impI allI)
  assume h: "get_iss c v = Inr i \<and> get_kid c v = Inr k \<and>
    lookup_public_key c i k st = (sk, Some key) \<and>
    validate_jwt c v key (GA4GH_VISA_ISSUER_ALLOWLIST c) = Inr d \<and> \<not> dict_has d ''sub''"
  then show p: "process_visa c v st =
        (log_record (LogError ''Visa failed validation: {}. Discarding visa.'') sk, Inr ())"
    by (simp add: process_visa_def sum_bind_def validate_and_store_def)
  from h have l: "lookup_public_key c i k st = (sk, Some key)" by simp
  from lookup_public_key_session [OF l] p
  show "user (fst (process_visa c v st)) = user st"
    and "committed (fst (process_visa c v st)) = committed st"
    by simp_all
next
  assume "\<forall>key d. validate_jwt c v key (GA4GH_VISA_ISSUER_ALLOWLIST c) = Inr d \<longrightarrow>
        \<not> dict_has d ''sub''"
  then show "never_stored v (fst (update_user_visas_body c st))"
    by (rule update_user_visas_body_never_stored)
next
  fix st' r
  assume all: "\<forall>n key d. validate_jwt (cs n) v key (GA4GH_VISA_ISSUER_ALLOWLIST (cs n)) = Inr d \<longrightarrow>
        \<not> dict_has d ''sub''"
    and run: "update_user_visas settings cs st = Some (st', r)"
  from run on_exception_result [of settings "\<lambda>tries. update_user_visas_body (cs tries)" 0 st "(st', r)"]
  obtain n st0 where "update_user_visas_body (cs n) st0 = (st', r)"
    by (auto simp: update_user_visas_def)
  moreover from all have "never_stored v (fst (update_user_visas_body (cs n) st0))"
    by (intro update_user_visas_body_never_stored) blast
  ultimately show "never_stored v st'" by simp
qed

theorem update_user_visas_missing_sub_witness:
  "validate_jwt nosub_client ''visa-nosub'' ''PEM-1'' (GA4GH_VISA_ISSUER_ALLOWLIST nosub_client) =
     Inr nosub_claims \<and>
   \<not> dict_has nosub_claims ''sub'' \<and>
   lookup_public_key nosub_client ''https://stsstg.nih.gov'' ''kid-1'' cached_sync =
     (cached_sync, Some ''PEM-1'') \<and>
   process_visa nosub_client ''visa-nosub'' cached_sync =
     (log_record (LogError ''Visa failed validation: {}. Discarding visa.'') cached_sync, Inr ()) \<and>
   ga4gh_visas_v1 (user (fst (update_user_visas_body nosub_client sample_sync))) = [visa1_row] \<and>
   never_stored ''visa-nosub'' (fst (update_user_visas_body nosub_client sample_sync))"
proof -
  have v: "validate_jwt nosub_client ''visa-nosub'' ''PEM-1''
             (GA4GH_VISA_ISSUER_ALLOWLIST nosub_client) = Inr nosub_claims"
    by (simp add: nosub_client_def sample_client_def)
  have n: "\<not> dict_has nosub_claims ''sub''"
    by (simp add: dict_has_def nosub_claims_def)
  have p: "get_iss nosub_client ''visa-nosub'' = Inr ''https://stsstg.nih.gov''"
    "get_kid nosub_client ''visa-nosub'' = Inr ''kid-1''"
    by (simp_all add: nosub_client_def sample_client_def)
  have l: "lookup_public_key nosub_client ''https://stsstg.nih.gov'' ''kid-1'' cached_sync =
             (cached_sync, Some ''PEM-1'')"
    using cached_hit by (simp add: lookup_public_key_hit)
  have a: "\<forall>key d. validate_jwt nosub_client ''visa-nosub'' key
                  (GA4GH_VISA_ISSUER_ALLOWLIST nosub_client) = Inr d \<longrightarrow> \<not> dict_has d ''sub''"
    by (simp add: nosub_client_def sample_client_def dict_has_def nosub_claims_def)
  note inst = update_user_visas_missing_sub
    [where c = nosub_client and v = "''visa-nosub''" and i = "''https://stsstg.nih.gov''"
       and k = "''kid-1''" and st = cached_sync and sk = cached_sync and key = "''PEM-1''"
       and d = nosub_claims]
    update_user_visas_missing_sub
    [where c = nosub_client and v = "''visa-nosub''" and st = sample_sync]
  from inst(1) v n p l
  have "process_visa nosub_client ''visa-nosub'' cached_sync =
     (log_record (LogError ''Visa failed validation: {}. Discarding visa.'') cached_sync, Inr ())"
    by blast
  moreover from inst(2) a
  have "never_stored ''visa-nosub'' (fst (update_user_visas_body nosub_client sample_sync))"
    by blast
  ultimately show ?thesis
    using v n l by (simp add: nosub_run)
qed

text \<open>
  C8. When the cache holds a key (a non-empty PEM string) for the issuer and key id of a
  visa, the visa is validated with that key, \<open>refresh_cronjob_pkey_cache\<close> is not called
  and the cache stays as it is; validating the visa a second time does not call it
  either. The helper is called, once, only when the cache holds no key for the pair.
  When the helper then raises, or returns no key (the fetched key set lacks the key
  id), the visa is discarded: the loop goes on and the rows of the user are untouched.
\<close>

theorem update_user_visas_key_cache:
  "(get_iss c v = Inr i \<and> get_kid c v = Inr k \<and>
    cache_get (pkey_cache st) i k = Some key \<and> key \<noteq> [] \<longrightarrow>
      process_visa c v st = validate_and_store c v key st \<and>
      fetches (trace (fst (process_visa c v st))) = fetches (trace st) \<and>
      pkey_cache (fst (process_visa c v st)) = pkey_cache st \<and>
      fetches (trace (fst (visas_loop c [v, v] st))) = fetches (trace st)) \<and>
   (fetches (trace (fst (process_visa c v st))) \<noteq> fetches (trace st) \<longrightarrow>
      (\<exists>i k. get_iss c v = Inr i \<and> get_kid c v = Inr k \<and>
             \<not> key_truthy (cache_get (pkey_cache st) i k) \<and>
             fetches (trace (fst (process_visa c v st))) = fetches (trace st) @ [Fetch_keys i k])) \<and>
   (get_iss c v = Inr i \<and> get_kid c v = Inr k \<and>
    \<not> key_truthy (cache_get (pkey_cache st) i k) \<and>
    refresh_cronjob_pkey_cache c i k (pkey_cache st) = (cache', r) \<and>
    ((\<exists>e. r = Inl e) \<or> (\<exists>p. r = Inr p \<and> \<not> key_truthy p)) \<longrightarrow>
      snd (process_visa c v st) = Inr () \<and>
      user (fst (process_visa c v st)) = user st \<and>
      committed (fst (process_visa c v st)) = committed st \<and>
      fetches (trace (fst (process_visa c v st))) = fetches (trace st) @ [Fetch_keys i k])"
proof (intro conjI impI)
  assume h: "get_iss c v = Inr i \<and> get_kid c v = Inr k \<and>
    cache_get (pkey_cache st) i k = Some key \<and> key \<noteq> []"
  then have l: "lookup_public_key c i k st = (st, Some key)"
    by (simp add: lookup_public_key_hit)
  with h show p: "process_visa c v st = validate_and_store c v key st"
    by (simp add: process_visa_parsed)
  show "fetches (trace (fst (process_visa c v st))) = fetches (trace st)"
    by (simp add: p validate_and_store_fetches)
  show pc: "pkey_cache (fst (process_visa c v st)) = pkey_cache st"
    by (simp add: p validate_and_store_cache)
  obtain s1 r1 where v1: "validate_and_store c v key st = (s1, r1)"
    by (cases "validate_and_store c v key st")
  with p have p1: "process_visa c v st = (s1, r1)" by simp
  from v1 validate_and_store_cache [of c v key st] validate_and_store_fetches [of c v key st]
  have s1: "pkey_cache s1 = pkey_cache st" "fetches (trace s1) = fetches (trace st)"
    by simp_all
  show "fetches (trace (fst (visas_loop c [v, v] st))) = fetches (trace st)"
  proof (cases r1)
    case (Inl e)
    with p1 s1 show ?thesis by simp
  next
    case (Inr u)
    from h s1 have "lookup_public_key c i k s1 = (s1, Some key)"
      by (simp add: lookup_public_key_hit)
    with h have p2: "process_visa c v s1 = validate_and_store c v key s1"
      by (simp add: process_visa_parsed)
    obtain s2 r2 where v2: "validate_and_store c v key s1 = (s2, r2)"
      by (cases "validate_and_store c v key s1")
    with validate_and_store_fetches [of c v key s1] s1
    have "fetches (trace s2) = fetches (trace st)" by simp
    with p1 Inr p2 v2 show ?thesis by (cases r2) simp_all
  qed
next
  assume neq: "fetches (trace (fst (process_visa c v st))) \<noteq> fetches (trace st)"
  show "\<exists>i k. get_iss c v = Inr i \<and> get_kid c v = Inr k \<and>
             \<not> key_truthy (cache_get (pkey_cache st) i k) \<and>
             fetches (trace (fst (process_visa c v st))) = fetches (trace st) @ [Fetch_keys i k]"
  proof (cases "sum_bind (get_iss c v) (\<lambda>i. sum_bind (get_kid c v) (\<lambda>k. Inr (i, k)))")
    case (Inl e)
    with neq show ?thesis by (simp add: process_visa_def)
  next
    case (Inr ik)
    obtain i k where ik: "ik = (i, k)" by (cases ik)
    with Inr have parsed: "get_iss c v = Inr i" "get_kid c v = Inr k"
      by (auto simp: sum_bind_def split: sum.splits)
    obtain s1 r where l: "lookup_public_key c i k st = (s1, r)"
      by (cases "lookup_public_key c i k st")
    from lookup_public_key_fetches [of c i k st] l
    have f1: "fetches (trace s1) = fetches (trace st) @
                (if key_truthy (cache_get (pkey_cache st) i k) then [] else [Fetch_keys i k])"
      by simp
    have f2: "fetches (trace (fst (process_visa c v st))) = fetches (trace s1)"
      using parsed l by (cases r) (simp_all add: process_visa_parsed validate_and_store_fetches)
    from f1 f2 neq parsed show ?thesis
      by (auto split: if_splits)
  qed
next
  assume h: "get_iss c v = Inr i \<and> get_kid c v = Inr k \<and>
    \<not> key_truthy (cache_get (pkey_cache st) i k) \<and>
    refresh_cronjob_pkey_cache c i k (pkey_cache st) = (cache', r) \<and>
    ((\<exists>e. r = Inl e) \<or> (\<exists>p. r = Inr p \<and> \<not> key_truthy p))"
  then have "\<exists>s1. lookup_public_key c i k st = (s1, None)"
    by (auto simp: lookup_public_key_def Let_def)
  then obtain s1 where l: "lookup_public_key c i k st = (s1, None)" by blast
  with h have p: "process_visa c v st = (s1, Inr ())"
    by (simp add: process_visa_parsed)
  from p show "snd (process_visa c v st) = Inr ()" by simp
  from lookup_public_key_session [OF l] p
  show "user (fst (process_visa c v st)) = user st"
    and "committed (fst (process_visa c v st)) = committed st"
    by simp_all
  from lookup_public_key_fetches [of c i k st] l h p
  show "fetches (trace (fst (process_visa c v st))) = fetches (trace st) @ [Fetch_keys i k]"
    by simp
qed

theorem update_user_visas_key_cache_witness:
  "cache_get (pkey_cache cached_sync) ''https://stsstg.nih.gov'' ''kid-1'' = Some ''PEM-1'' \<and>
   fetches (trace (fst (process_visa sample_client ''visa-1'' cached_sync))) = [] \<and>
   \<not> key_truthy (cache_get (pkey_cache sample_sync) ''https://stsstg.nih.gov'' ''kid-1'') \<and>
   fetches (trace (fst (process_visa sample_client ''visa-1'' sample_sync))) =
     [Fetch_keys ''https://stsstg.nih.gov'' ''kid-1''] \<and>
   refresh_cronjob_pkey_cache sample_client ''https://other.example.org'' ''kid-1''
       (pkey_cache sample_sync) =
     (pkey_cache sample_sync, Inl (JWTError ''Could not fetch keys from JWKs url'')) \<and>
   snd (process_visa sample_client ''visa-other'' sample_sync) = Inr () \<and>
   user (fst (process_visa sample_client ''visa-other'' sample_sync)) = sample_user \<and>
   snd (refresh_cronjob_pkey_cache sample_client ''https://stsstg.nih.gov'' ''kid-0''
          (pkey_cache sample_sync)) = Inr None \<and>
   snd (process_visa sample_client ''visa-oldkid'' sample_sync) = Inr () \<and>
   user (fst (process_visa sample_client ''visa-oldkid'' sample_sync)) = sample_user"
proof -
  have parsed: "get_iss sample_client ''visa-1'' = Inr ''https://stsstg.nih.gov''"
    "get_kid sample_client ''visa-1'' = Inr ''kid-1''"
    "get_iss sample_client ''visa-other'' = Inr ''https://other.example.org''"
    "get_kid sample_client ''visa-other'' = Inr ''kid-1''"
    "get_iss sample_client ''visa-oldkid'' = Inr ''https://stsstg.nih.gov''"
    "get_kid sample_client ''visa-oldkid'' = Inr ''kid-0''"
    by (simp_all add: sample_client_def)
  have ne: "''PEM-1'' \<noteq> []" by simp
  have none: "\<not> key_truthy None" by (simp add: key_truthy_def)
  have miss: "\<not> key_truthy (cache_get (pkey_cache sample_sync) i k)" for i k
    by (simp add: sample_sync_def cache_get_def key_truthy_def)
  have r1: "refresh_cronjob_pkey_cache sample_client ''https://other.example.org'' ''kid-1''
              (pkey_cache sample_sync) =
            (pkey_cache sample_sync, Inl (JWTError ''Could not fetch keys from JWKs url''))"
    by (simp add: sample_client_def)
  have r2: "refresh_cronjob_pkey_cache sample_client ''https://stsstg.nih.gov'' ''kid-0''
              (pkey_cache sample_sync) =
            ((pkey_cache sample_sync)(''https://stsstg.nih.gov'' \<mapsto> [''kid-1'' \<mapsto> ''PEM-1'']),
             Inr None)"
    by (simp add: sample_client_def)
  have hit: "fetches (trace (fst (process_visa sample_client ''visa-1'' cached_sync))) =
               fetches (trace cached_sync)"
    using update_user_visas_key_cache
      [where c = sample_client and v = "''visa-1''" and i = "''https://stsstg.nih.gov''"
         and k = "''kid-1''" and st = cached_sync and key = "''PEM-1''"]
      parsed cached_hit ne
    by blast
  have other: "snd (process_visa sample_client ''visa-other'' sample_sync) = Inr () \<and>
               user (fst (process_visa sample_client ''visa-other'' sample_sync)) =
                 user sample_sync"
    using update_user_visas_key_cache
      [where c = sample_client and v = "''visa-other''" and i = "''https://other.example.org''"
         and k = "''kid-1''" and st = sample_sync and cache' = "pkey_cache sample_sync"
         and r = "Inl (JWTError ''Could not fetch keys from JWKs url'')"]
      parsed miss r1
    by blast
  have oldkid: "snd (process_visa sample_client ''visa-oldkid'' sample_sync) = Inr () \<and>
                user (fst (process_visa sample_client ''visa-oldkid'' sample_sync)) =
                  user sample_sync"
    using update_user_visas_key_cache
      [where c = sample_client and v = "''visa-oldkid''" and i = "''https://stsstg.nih.gov''"
         and k = "''kid-0''" and st = sample_sync
         and cache' = "(pkey_cache sample_sync)(''https://stsstg.nih.gov'' \<mapsto> [''kid-1'' \<mapsto> ''PEM-1''])"
         and r = "Inr None"]
      parsed miss r2 none
    by blast
  have fetched: "fetches (trace (fst (process_visa sample_client ''visa-1'' sample_sync))) =
                   [Fetch_keys ''https://stsstg.nih.gov'' ''kid-1'']"
    by (simp add: process_visa_def sample_client_def sum_bind_def lookup_public_key_def
          cache_get_def key_truthy_def sample_sync_def validate_and_store_def
          dict_has_def visa1_claims_def new_visa_def subscript_def py_int_def
          commit_def add_visa_def)
  from hit other oldkid fetched cached_hit miss r1 r2 show ?thesis
    by (simp add: cached_sync_def sample_sync_def)
qed

end
